theory Spec2Isabelle
  imports Main
begin

section \<open>Python values, settings and responses\<close>

text \<open>
  The tool arguments arrive as a Python dict from parameter names to JSON scalars.
  Text is represented by its UTF-8 bytes (\<open>string\<close> is a list of 8-bit characters),
  so the bytes captured from a child process and the text decoded from them are
  the same list whenever decoding succeeds.
\<close>

datatype pyval = VStr string | VInt int | VBool bool | VNone

type_synonym arguments = "string \<rightharpoonup> pyval"

text \<open>An instance of \<open>Exception\<close>, carrying \<open>str(e)\<close>.\<close>

datatype exn = Exn string

datatype content = TextContent string | ErrorContent string

record ServerSettings =
  max_file_size :: int
  temp_dir :: "string option"
  timeout :: int
  bwa_path :: string

definition default_settings :: ServerSettings where
  "default_settings =
     \<lparr>max_file_size = 50000000000, temp_dir = None, timeout = 3600, bwa_path = ''bwa''\<rparr>"

subsection \<open>\<open>str()\<close>, truthiness and number formatting\<close>

definition digit :: "nat \<Rightarrow> char" where
  "digit n = ''0123456789'' ! (n mod 10)"

function str_nat :: "nat \<Rightarrow> string" where
  "str_nat n = (if n < 10 then [digit n] else str_nat (n div 10) @ [digit n])"
  by pat_completeness auto
termination
  by (relation "measure (\<lambda>n. n)") auto

declare str_nat.simps [simp del]

definition str_int :: "int \<Rightarrow> string" where
  "str_int i = (if i < 0 then ''-'' @ str_nat (nat (- i)) else str_nat (nat i))"

text \<open>\<open>str(v)\<close>, which is also what an f-string field \<open>{v}\<close> inserts.\<close>

fun py_str :: "pyval \<Rightarrow> string" where
  "py_str (VStr s) = s"
| "py_str (VInt i) = str_int i"
| "py_str (VBool b) = (if b then ''True'' else ''False'')"
| "py_str VNone = ''None''"

text \<open>The truth value Python gives \<open>v\<close> in \<open>if v:\<close>.\<close>

fun truthy :: "pyval \<Rightarrow> bool" where
  "truthy (VStr s) = (s \<noteq> [])"
| "truthy (VInt i) = (i \<noteq> 0)"
| "truthy (VBool b) = b"
| "truthy VNone = False"

text \<open>The format \<open>{n:,}\<close> of a non-negative integer: decimal digits, a comma
  before every group of three counted from the right.\<close>

fun group3 :: "string \<Rightarrow> string" where
  "group3 (a # b # c # d # rest) = a # b # c # CHR '','' # group3 (d # rest)"
| "group3 ds = ds"

definition fmt_commas :: "nat \<Rightarrow> string" where
  "fmt_commas n = rev (group3 (rev (str_nat n)))"

definition nl :: string where
  "nl = [CHR 0x0A]"

text \<open>\<open>sep.join(xs)\<close>.\<close>

fun join :: "string \<Rightarrow> string list \<Rightarrow> string" where
  "join sep [] = []"
| "join sep [x] = x"
| "join sep (x # y # ys) = x @ sep @ join sep (y # ys)"

subsection \<open>Dictionary access\<close>

text \<open>\<open>arguments.get(k, d)\<close> and \<open>arguments.get(k)\<close>.\<close>

definition get_default :: "arguments \<Rightarrow> string \<Rightarrow> pyval \<Rightarrow> pyval" where
  "get_default args k d = (case args k of None \<Rightarrow> d | Some v \<Rightarrow> v)"

definition get_opt :: "arguments \<Rightarrow> string \<Rightarrow> pyval" where
  "get_opt args k = get_default args k VNone"

text \<open>\<open>repr(k)\<close> of a parameter name (the names contain no quote or escape).\<close>

definition key_repr :: "string \<Rightarrow> string" where
  "key_repr k = [CHR 0x27] @ k @ [CHR 0x27]"

section \<open>The environment of a call\<close>

text \<open>
  The file system maps a path string to a file with its bytes or to a directory.
  A \<open>Path\<close> object is represented by the string \<open>str(path)\<close>.
\<close>

datatype node = File string | Dir

type_synonym fs = "string \<rightharpoonup> node"

text \<open>
  What awaiting the child under \<open>asyncio.wait_for\<close> yields: the launch raised,
  the wait timed out (with the bytes written to standard output so far), or the
  child exited with a return code, its standard output and its standard error.
\<close>

datatype proc_result =
    SpawnError string
  | TimedOut string
  | Exited int string string

datatype pstatus = Running | Finished int

text \<open>Library calls that can raise for reasons outside the handler's control.\<close>

datatype libcall =
    CExists string
  | CStat string
  | CMkdtemp "string option"
  | COpenW string
  | COpenR string
  | CDecode string
  | CWithSuffix string string

text \<open>
  Everything a handler takes from the library and the operating system:
  \<^item> \<open>path_str s\<close> is \<open>str(Path(s))\<close>;
  \<^item> \<open>path_type_error v\<close> and \<open>exec_type_error v\<close> are the messages of the
    \<open>TypeError\<close> that \<open>Path(v)\<close> and \<open>create_subprocess_exec\<close> raise for a
    value \<open>v\<close> that is not a string;
  \<^item> \<open>fault c\<close> is the message of the exception the library call \<open>c\<close> raises, if it raises;
  \<^item> \<open>os_error p\<close> is the message of the \<open>OSError\<close> for a path that is absent or
    of the wrong kind;
  \<^item> \<open>tmp_name\<close> is the name \<open>tempfile\<close> picks for a new directory;
  \<^item> \<open>dir_size\<close> is the \<open>st_size\<close> of a directory;
  \<^item> \<open>child argv t files\<close> is the behaviour of the external binary started with
    \<open>argv\<close> and awaited for \<open>t\<close> seconds, and \<open>child_writes\<close> the files it has
    changed by then (apart from its redirected standard output).
\<close>

record world =
  path_str :: "string \<Rightarrow> string"
  path_type_error :: "pyval \<Rightarrow> string"
  exec_type_error :: "pyval \<Rightarrow> string"
  fault :: "libcall \<Rightarrow> string option"
  os_error :: "string \<Rightarrow> string"
  tmp_name :: "string option \<Rightarrow> fs \<Rightarrow> string"
  dir_size :: nat
  child :: "string list \<Rightarrow> int \<Rightarrow> fs \<Rightarrow> proc_result"
  child_writes :: "string list \<Rightarrow> int \<Rightarrow> fs \<Rightarrow> fs"

text \<open>The state a call changes: the files, and the child processes launched so far
  with their status.\<close>

record sys =
  files :: fs
  procs :: "(string list \<times> pstatus) list"

subsection \<open>Computations that may raise\<close>

type_synonym 'a io = "sys \<Rightarrow> (exn + 'a) \<times> sys"

definition ret :: "'a \<Rightarrow> 'a io" where
  "ret x st = (Inr x, st)"

definition throw :: "exn \<Rightarrow> 'a io" where
  "throw e st = (Inl e, st)"

definition bnd :: "'a io \<Rightarrow> ('a \<Rightarrow> 'b io) \<Rightarrow> 'b io" where
  "bnd m f st = (case m st of (Inl e, st') \<Rightarrow> (Inl e, st') | (Inr x, st') \<Rightarrow> f x st')"

text \<open>\<open>arguments[k]\<close>: a missing key raises \<open>KeyError(k)\<close>, whose \<open>str\<close> is \<open>repr(k)\<close>.\<close>

definition subscript :: "arguments \<Rightarrow> string \<Rightarrow> pyval io" where
  "subscript args k =
     (case args k of None \<Rightarrow> throw (Exn (key_repr k)) | Some v \<Rightarrow> ret v)"

text \<open>\<open>Path(v)\<close>.\<close>

definition Path :: "world \<Rightarrow> pyval \<Rightarrow> string io" where
  "Path w v =
     (case v of VStr s \<Rightarrow> ret (path_str w s) | _ \<Rightarrow> throw (Exn (path_type_error w v)))"

text \<open>\<open>p.exists()\<close>.\<close>

definition path_exists :: "world \<Rightarrow> string \<Rightarrow> bool io" where
  "path_exists w p st =
     (case fault w (CExists p) of
        Some m \<Rightarrow> (Inl (Exn m), st)
      | None \<Rightarrow> (Inr (files st p \<noteq> None), st))"

text \<open>\<open>p.stat().st_size\<close>.\<close>

definition stat_size :: "world \<Rightarrow> string \<Rightarrow> nat io" where
  "stat_size w p st =
     (case fault w (CStat p) of
        Some m \<Rightarrow> (Inl (Exn m), st)
      | None \<Rightarrow>
          (case files st p of
             None \<Rightarrow> (Inl (Exn (os_error w p)), st)
           | Some (File b) \<Rightarrow> (Inr (length b), st)
           | Some Dir \<Rightarrow> (Inr (dir_size w), st)))"

text \<open>\<open>b.decode()\<close>: strict UTF-8; the text is the same bytes.\<close>

definition decode :: "world \<Rightarrow> string \<Rightarrow> string io" where
  "decode w b =
     (case fault w (CDecode b) of Some m \<Rightarrow> throw (Exn m) | None \<Rightarrow> ret b)"

text \<open>\<open>open(p, 'w')\<close> (or \<open>'wb'\<close>): creates the file or truncates it.\<close>

definition open_w :: "world \<Rightarrow> string \<Rightarrow> unit io" where
  "open_w w p st =
     (case fault w (COpenW p) of
        Some m \<Rightarrow> (Inl (Exn m), st)
      | None \<Rightarrow>
          (case files st p of
             Some Dir \<Rightarrow> (Inl (Exn (os_error w p)), st)
           | _ \<Rightarrow> (Inr (), st\<lparr>files := (files st)(p \<mapsto> File [])\<rparr>)))"

subsection \<open>Launching the binary and awaiting it\<close>

text \<open>The first argument that is not a string, if any.\<close>

fun bad_arg :: "pyval list \<Rightarrow> pyval option" where
  "bad_arg [] = None"
| "bad_arg (VStr s # vs) = bad_arg vs"
| "bad_arg (v # vs) = Some v"

definition redirect :: "string option \<Rightarrow> string \<Rightarrow> fs \<Rightarrow> fs" where
  "redirect out b f = (case out of None \<Rightarrow> f | Some p \<Rightarrow> f(p \<mapsto> File b))"

text \<open>
  \<open>create_subprocess_exec(*cmd, stdout=..., stderr=PIPE)\<close> followed by
  \<open>wait_for(process.communicate(), timeout=settings.timeout)\<close>; \<open>out\<close> is the file
  standard output is redirected to (\<open>None\<close> for a pipe). The result is
  \<open>process.returncode\<close> and the captured standard error. On a timeout \<open>wait_for\<close>
  raises \<open>TimeoutError()\<close>, whose \<open>str\<close> is empty; no handler signals the child, so
  its status stays \<open>Running\<close>.
\<close>

definition spawn_wait ::
  "world \<Rightarrow> ServerSettings \<Rightarrow> pyval list \<Rightarrow> string option \<Rightarrow> (int \<times> string) io" where
  "spawn_wait w s cmd out st =
     (case bad_arg cmd of
        Some v \<Rightarrow> (Inl (Exn (exec_type_error w v)), st)
      | None \<Rightarrow>
          (let argv = map py_str cmd;
               files' = child_writes w argv (timeout s) (files st)
           in case child w argv (timeout s) (files st) of
                SpawnError m \<Rightarrow> (Inl (Exn m), st)
              | TimedOut partial \<Rightarrow>
                  (Inl (Exn []),
                   st\<lparr>files := redirect out partial files',
                      procs := procs st @ [(argv, Running)]\<rparr>)
              | Exited rc out_bytes err_bytes \<Rightarrow>
                  (Inr (rc, err_bytes),
                   st\<lparr>files := redirect out out_bytes files',
                      procs := procs st @ [(argv, Finished rc)]\<rparr>)))"

subsection \<open>The scoped temporary directory\<close>

text \<open>A path is inside \<open>d\<close> when it is \<open>d\<close> or continues \<open>d\<close> after a slash.\<close>

definition inside :: "string \<Rightarrow> string \<Rightarrow> bool" where
  "inside d p = (p = d \<or> take (Suc (length d)) p = d @ ''/'')"

definition rmtree :: "string \<Rightarrow> fs \<Rightarrow> fs" where
  "rmtree d f = (\<lambda>p. if inside d p then None else f p)"

text \<open>
  \<open>with tempfile.TemporaryDirectory(dir=settings.temp_dir) as tmpdir: body\<close>.
  The directory is created on entry and removed with its contents on exit,
  whether the body returns or raises.
\<close>

definition with_tmpdir :: "world \<Rightarrow> ServerSettings \<Rightarrow> (string \<Rightarrow> 'a io) \<Rightarrow> 'a io" where
  "with_tmpdir w s body st =
     (case fault w (CMkdtemp (temp_dir s)) of
        Some m \<Rightarrow> (Inl (Exn m), st)
      | None \<Rightarrow>
          (let d = tmp_name w (temp_dir s) (files st)
           in case body d (st\<lparr>files := (files st)(d \<mapsto> Dir)\<rparr>) of
                (r, st') \<Rightarrow> (r, st'\<lparr>files := rmtree d (files st')\<rparr>)))"

text \<open>\<open>try: body  except Exception as e: return [ErrorContent(text=f"Error: {str(e)}")]\<close>.\<close>

definition try_except :: "content list io \<Rightarrow> content list io" where
  "try_except body st =
     (case body st of
        (Inl (Exn msg), st') \<Rightarrow> (Inr [ErrorContent (''Error: '' @ msg)], st')
      | (Inr r, st') \<Rightarrow> (Inr r, st'))"

section \<open>Reading the SAM output\<close>

text \<open>
  Iterating over a file opened in text mode yields its lines, each ended by a
  line feed except possibly the last; a carriage return, alone or before a line
  feed, also ends a line and is read as a line feed. \<open>cur\<close> is the line being
  read, reversed.
\<close>

fun split_lines :: "string \<Rightarrow> string \<Rightarrow> string list" where
  "split_lines cur [] = (if cur = [] then [] else [rev cur])"
| "split_lines cur (c # cs) =
     (if c = CHR 0x0A then rev (CHR 0x0A # cur) # split_lines [] cs
      else if c = CHR 0x0D then
        (case cs of
           [] \<Rightarrow> [rev (CHR 0x0A # cur)]
         | c' # cs' \<Rightarrow>
             if c' = CHR 0x0A then rev (CHR 0x0A # cur) # split_lines [] cs'
             else rev (CHR 0x0A # cur) # split_lines [] cs)
      else split_lines (c # cur) cs)"

text \<open>\<open>open(p)\<close> and the iteration over its lines; \<open>COpenR p\<close> stands for any
  exception raised while opening or reading.\<close>

definition read_lines :: "world \<Rightarrow> string \<Rightarrow> string list io" where
  "read_lines w p st =
     (case fault w (COpenR p) of
        Some m \<Rightarrow> (Inl (Exn m), st)
      | None \<Rightarrow>
          (case files st p of
             Some (File b) \<Rightarrow> (Inr (split_lines [] b), st)
           | _ \<Rightarrow> (Inl (Exn (os_error w p)), st)))"

text \<open>\<open>line.startswith('@')\<close>.\<close>

fun startswith_at :: "string \<Rightarrow> bool" where
  "startswith_at [] = False"
| "startswith_at (c # cs) = (c = CHR ''@'')"

text \<open>\<open>sum(1 for line in f if not line.startswith('@'))\<close>.\<close>

definition count_records :: "string list \<Rightarrow> nat" where
  "count_records lines = length (filter (\<lambda>line. \<not> startswith_at line) lines)"

section \<open>The handlers\<close>

subsection \<open>\<open>_run_index\<close>\<close>

text \<open>\<open>p.with_suffix(p.suffix + suffix)\<close>: the suffix is appended to the name;
  a path with an empty name raises \<open>ValueError\<close>.\<close>

definition with_suffix :: "world \<Rightarrow> string \<Rightarrow> string \<Rightarrow> string io" where
  "with_suffix w p suffix =
     (case fault w (CWithSuffix p suffix) of
        Some m \<Rightarrow> throw (Exn m)
      | None \<Rightarrow> ret (p @ suffix))"

text \<open>The loop over the five suffixes, collecting the index files that exist.\<close>

fun index_files :: "world \<Rightarrow> string \<Rightarrow> string list \<Rightarrow> string list io" where
  "index_files w reference_fasta [] st = (Inr [], st)"
| "index_files w reference_fasta (suffix # rest) st =
     (case with_suffix w reference_fasta suffix st of
        (Inl e, st1) \<Rightarrow> (Inl e, st1)
      | (Inr index_file, st1) \<Rightarrow>
          (case path_exists w index_file st1 of
             (Inl e, st2) \<Rightarrow> (Inl e, st2)
           | (Inr ex, st2) \<Rightarrow>
               (case index_files w reference_fasta rest st2 of
                  (Inl e, st3) \<Rightarrow> (Inl e, st3)
                | (Inr found, st3) \<Rightarrow>
                    (Inr (if ex then index_file # found else found), st3))))"

definition bullet :: string where
  "bullet = [CHR 0xE2, CHR 0x80, CHR 0xA2]"

definition size_threshold :: nat where
  "size_threshold = 2000000000"

text \<open>\<open>arguments.get("algorithm", "bwtsw" if file_size > 2_000_000_000 else "is")\<close>.\<close>

definition choose_algorithm :: "arguments \<Rightarrow> nat \<Rightarrow> pyval" where
  "choose_algorithm args file_size =
     get_default args ''algorithm''
       (VStr (if file_size > size_threshold then ''bwtsw'' else ''is''))"

definition index_cmd :: "ServerSettings \<Rightarrow> pyval \<Rightarrow> string \<Rightarrow> pyval list" where
  "index_cmd s algorithm reference_fasta =
     [VStr (bwa_path s), VStr ''index'', VStr ''-a'', algorithm, VStr reference_fasta]"

definition index_summary :: "string \<Rightarrow> pyval \<Rightarrow> string list \<Rightarrow> string" where
  "index_summary reference_fasta algorithm found =
     ''BWA index created successfully!'' @ nl @ nl @
     ''Reference: '' @ reference_fasta @ nl @
     ''Algorithm: '' @ py_str algorithm @ nl @
     ''Index files created:'' @ nl @
     join nl (map (\<lambda>f. ''  '' @ bullet @ '' '' @ f) found)"

definition run_index_body :: "world \<Rightarrow> ServerSettings \<Rightarrow> arguments \<Rightarrow> content list io" where
  "run_index_body w s args =
     bnd (subscript args ''reference_fasta'') (\<lambda>v.
     bnd (Path w v) (\<lambda>reference_fasta.
     bnd (path_exists w reference_fasta) (\<lambda>ex.
     if \<not> ex then ret [ErrorContent (''Reference file not found: '' @ reference_fasta)]
     else
     bnd (stat_size w reference_fasta) (\<lambda>file_size.
     let algorithm = choose_algorithm args file_size in
     bnd (spawn_wait w s (index_cmd s algorithm reference_fasta) None) (\<lambda>(returncode, stderr).
     if returncode \<noteq> 0
     then bnd (decode w stderr) (\<lambda>t. ret [ErrorContent (''BWA index failed: '' @ t)])
     else
     bnd (index_files w reference_fasta [''.amb'', ''.ann'', ''.bwt'', ''.pac'', ''.sa''])
       (\<lambda>found.
     ret [TextContent (index_summary reference_fasta algorithm found)]))))))"

definition run_index :: "world \<Rightarrow> ServerSettings \<Rightarrow> arguments \<Rightarrow> content list io" where
  "run_index w s args = try_except (run_index_body w s args)"

subsection \<open>\<open>_run_mem\<close>\<close>

definition mem_cmd :: "ServerSettings \<Rightarrow> arguments \<Rightarrow> string \<Rightarrow> string \<Rightarrow> pyval list" where
  "mem_cmd s args reference reads1 =
     [VStr (bwa_path s), VStr ''mem'',
      VStr ''-t'', VStr (py_str (get_default args ''threads'' (VInt 4))),
      VStr ''-k'', VStr (py_str (get_default args ''min_seed_length'' (VInt 19))),
      VStr ''-w'', VStr (py_str (get_default args ''band_width'' (VInt 100)))]
     @ (if truthy (get_opt args ''read_group'')
        then [VStr ''-R'', get_opt args ''read_group''] else [])
     @ [VStr reference, VStr reads1]"

text \<open>The second reads file: appended when the parameter is truthy and the path exists.\<close>

definition mem_reads2 :: "world \<Rightarrow> arguments \<Rightarrow> pyval list io" where
  "mem_reads2 w args =
     (if truthy (get_opt args ''reads2'')
      then bnd (Path w (get_opt args ''reads2'')) (\<lambda>reads2.
           bnd (path_exists w reads2) (\<lambda>ex.
           ret (if ex then [VStr reads2] else [])))
      else ret [])"

definition mem_summary :: "arguments \<Rightarrow> string \<Rightarrow> nat \<Rightarrow> nat \<Rightarrow> string" where
  "mem_summary args output_sam output_size total_lines =
     ''BWA-MEM alignment completed!'' @ nl @ nl @
     ''Output file: '' @ output_sam @ nl @
     ''Output size: '' @ fmt_commas output_size @ '' bytes'' @ nl @
     ''Alignment records: '' @ fmt_commas total_lines @ nl @
     ''Threads used: '' @ py_str (get_default args ''threads'' (VInt 4)) @ nl @
     ''Paired-end: '' @ (if truthy (get_opt args ''reads2'') then ''Yes'' else ''No'')"

definition run_mem_tmp ::
  "world \<Rightarrow> ServerSettings \<Rightarrow> arguments \<Rightarrow> string \<Rightarrow> string \<Rightarrow> string \<Rightarrow> content list io" where
  "run_mem_tmp w s args reference reads1 tmpdir =
     (let output_sam = path_str w (tmpdir @ ''/alignment.sam'') in
      bnd (mem_reads2 w args) (\<lambda>second.
      bnd (open_w w output_sam) (\<lambda>_.
      bnd (spawn_wait w s (mem_cmd s args reference reads1 @ second) (Some output_sam))
        (\<lambda>(returncode, stderr).
      if returncode \<noteq> 0
      then bnd (decode w stderr) (\<lambda>t. ret [ErrorContent (''BWA mem failed: '' @ t)])
      else
      bnd (stat_size w output_sam) (\<lambda>output_size.
      bnd (read_lines w output_sam) (\<lambda>lines.
      ret [TextContent
             (mem_summary args output_sam output_size (count_records lines))]))))))"

definition run_mem_body :: "world \<Rightarrow> ServerSettings \<Rightarrow> arguments \<Rightarrow> content list io" where
  "run_mem_body w s args =
     bnd (subscript args ''reference'') (\<lambda>v1.
     bnd (Path w v1) (\<lambda>reference.
     bnd (subscript args ''reads1'') (\<lambda>v2.
     bnd (Path w v2) (\<lambda>reads1.
     bnd (path_exists w reference) (\<lambda>ex1.
     if \<not> ex1 then ret [ErrorContent (''Reference not found: '' @ reference)]
     else
     bnd (path_exists w reads1) (\<lambda>ex2.
     if \<not> ex2 then ret [ErrorContent (''Reads file not found: '' @ reads1)]
     else with_tmpdir w s (run_mem_tmp w s args reference reads1)))))))"

definition run_mem :: "world \<Rightarrow> ServerSettings \<Rightarrow> arguments \<Rightarrow> content list io" where
  "run_mem w s args = try_except (run_mem_body w s args)"

subsection \<open>\<open>_run_aln\<close>\<close>

definition aln_cmd :: "ServerSettings \<Rightarrow> arguments \<Rightarrow> string \<Rightarrow> string \<Rightarrow> pyval list" where
  "aln_cmd s args reference reads =
     [VStr (bwa_path s), VStr ''aln'',
      VStr ''-t'', VStr (py_str (get_default args ''threads'' (VInt 4))),
      VStr ''-n'', VStr (py_str (get_default args ''max_mismatches'' (VInt 4))),
      VStr ''-o'', VStr (py_str (get_default args ''max_gap_opens'' (VInt 1))),
      VStr reference, VStr reads]"

definition aln_summary :: "string \<Rightarrow> nat \<Rightarrow> string" where
  "aln_summary output_sai output_size =
     ''BWA aln completed!'' @ nl @ nl @
     ''Output SAI file: '' @ output_sai @ nl @
     ''Output size: '' @ fmt_commas output_size @ '' bytes'' @ nl @
     ''Use bwa_samse/sampe to convert to SAM format''"

definition run_aln_tmp ::
  "world \<Rightarrow> ServerSettings \<Rightarrow> arguments \<Rightarrow> string \<Rightarrow> string \<Rightarrow> string \<Rightarrow> content list io" where
  "run_aln_tmp w s args reference reads tmpdir =
     (let output_sai = path_str w (tmpdir @ ''/alignment.sai'') in
      bnd (open_w w output_sai) (\<lambda>_.
      bnd (spawn_wait w s (aln_cmd s args reference reads) (Some output_sai))
        (\<lambda>(returncode, stderr).
      if returncode \<noteq> 0
      then bnd (decode w stderr) (\<lambda>t. ret [ErrorContent (''BWA aln failed: '' @ t)])
      else
      bnd (stat_size w output_sai) (\<lambda>output_size.
      ret [TextContent (aln_summary output_sai output_size)]))))"

definition run_aln_body :: "world \<Rightarrow> ServerSettings \<Rightarrow> arguments \<Rightarrow> content list io" where
  "run_aln_body w s args =
     bnd (subscript args ''reference'') (\<lambda>v1.
     bnd (Path w v1) (\<lambda>reference.
     bnd (subscript args ''reads'') (\<lambda>v2.
     bnd (Path w v2) (\<lambda>reads.
     bnd (path_exists w reference) (\<lambda>ex1.
     if \<not> ex1 then ret [ErrorContent (''Reference not found: '' @ reference)]
     else
     bnd (path_exists w reads) (\<lambda>ex2.
     if \<not> ex2 then ret [ErrorContent (''Reads file not found: '' @ reads)]
     else with_tmpdir w s (run_aln_tmp w s args reference reads)))))))"

definition run_aln :: "world \<Rightarrow> ServerSettings \<Rightarrow> arguments \<Rightarrow> content list io" where
  "run_aln w s args = try_except (run_aln_body w s args)"

subsection \<open>\<open>_run_samse\<close> and \<open>_run_sampe\<close>\<close>

text \<open>
  \<open>for file_path in [...]: if not file_path.exists(): return [ErrorContent(...)]\<close>:
  the first path of the list that does not exist, if any.
\<close>

fun check_files :: "world \<Rightarrow> string list \<Rightarrow> string option io" where
  "check_files w [] st = (Inr None, st)"
| "check_files w (file_path # rest) st =
     (case path_exists w file_path st of
        (Inl e, st') \<Rightarrow> (Inl e, st')
      | (Inr ex, st') \<Rightarrow>
          if \<not> ex then (Inr (Some file_path), st') else check_files w rest st')"

definition sam_summary :: "string \<Rightarrow> string \<Rightarrow> nat \<Rightarrow> string" where
  "sam_summary title output_sam output_size =
     title @ nl @ nl @
     ''Output SAM file: '' @ output_sam @ nl @
     ''Output size: '' @ fmt_commas output_size @ '' bytes''"

definition run_samse_tmp ::
  "world \<Rightarrow> ServerSettings \<Rightarrow> string \<Rightarrow> string \<Rightarrow> string \<Rightarrow> string \<Rightarrow> content list io" where
  "run_samse_tmp w s reference sai_file reads tmpdir =
     (let output_sam = path_str w (tmpdir @ ''/alignment.sam'');
          cmd = [VStr (bwa_path s), VStr ''samse'', VStr reference, VStr sai_file, VStr reads] in
      bnd (open_w w output_sam) (\<lambda>_.
      bnd (spawn_wait w s cmd (Some output_sam)) (\<lambda>(returncode, stderr).
      if returncode \<noteq> 0
      then bnd (decode w stderr) (\<lambda>t. ret [ErrorContent (''BWA samse failed: '' @ t)])
      else
      bnd (stat_size w output_sam) (\<lambda>output_size.
      ret [TextContent (sam_summary ''BWA samse completed!'' output_sam output_size)]))))"

definition run_samse_body :: "world \<Rightarrow> ServerSettings \<Rightarrow> arguments \<Rightarrow> content list io" where
  "run_samse_body w s args =
     bnd (subscript args ''reference'') (\<lambda>v1.
     bnd (Path w v1) (\<lambda>reference.
     bnd (subscript args ''sai_file'') (\<lambda>v2.
     bnd (Path w v2) (\<lambda>sai_file.
     bnd (subscript args ''reads'') (\<lambda>v3.
     bnd (Path w v3) (\<lambda>reads.
     bnd (check_files w [reference, sai_file, reads]) (\<lambda>missing.
     case missing of
       Some file_path \<Rightarrow> ret [ErrorContent (''File not found: '' @ file_path)]
     | None \<Rightarrow> with_tmpdir w s (run_samse_tmp w s reference sai_file reads))))))))"

definition run_samse :: "world \<Rightarrow> ServerSettings \<Rightarrow> arguments \<Rightarrow> content list io" where
  "run_samse w s args = try_except (run_samse_body w s args)"

definition run_sampe_tmp ::
  "world \<Rightarrow> ServerSettings \<Rightarrow> string \<Rightarrow> string \<Rightarrow> string \<Rightarrow> string \<Rightarrow> string \<Rightarrow> string
     \<Rightarrow> content list io" where
  "run_sampe_tmp w s reference sai_file1 sai_file2 reads1 reads2 tmpdir =
     (let output_sam = path_str w (tmpdir @ ''/alignment.sam'');
          cmd = [VStr (bwa_path s), VStr ''sampe'', VStr reference,
                 VStr sai_file1, VStr sai_file2, VStr reads1, VStr reads2] in
      bnd (open_w w output_sam) (\<lambda>_.
      bnd (spawn_wait w s cmd (Some output_sam)) (\<lambda>(returncode, stderr).
      if returncode \<noteq> 0
      then bnd (decode w stderr) (\<lambda>t. ret [ErrorContent (''BWA sampe failed: '' @ t)])
      else
      bnd (stat_size w output_sam) (\<lambda>output_size.
      ret [TextContent (sam_summary ''BWA sampe completed!'' output_sam output_size)]))))"

definition run_sampe_body :: "world \<Rightarrow> ServerSettings \<Rightarrow> arguments \<Rightarrow> content list io" where
  "run_sampe_body w s args =
     bnd (subscript args ''reference'') (\<lambda>v1.
     bnd (Path w v1) (\<lambda>reference.
     bnd (subscript args ''sai_file1'') (\<lambda>v2.
     bnd (Path w v2) (\<lambda>sai_file1.
     bnd (subscript args ''sai_file2'') (\<lambda>v3.
     bnd (Path w v3) (\<lambda>sai_file2.
     bnd (subscript args ''reads1'') (\<lambda>v4.
     bnd (Path w v4) (\<lambda>reads1.
     bnd (subscript args ''reads2'') (\<lambda>v5.
     bnd (Path w v5) (\<lambda>reads2.
     bnd (check_files w [reference, sai_file1, sai_file2, reads1, reads2]) (\<lambda>missing.
     case missing of
       Some file_path \<Rightarrow> ret [ErrorContent (''File not found: '' @ file_path)]
     | None \<Rightarrow>
         with_tmpdir w s
           (run_sampe_tmp w s reference sai_file1 sai_file2 reads1 reads2))))))))))))"

definition run_sampe :: "world \<Rightarrow> ServerSettings \<Rightarrow> arguments \<Rightarrow> content list io" where
  "run_sampe w s args = try_except (run_sampe_body w s args)"

subsection \<open>\<open>call_tool\<close>\<close>

definition handlers ::
  "world \<Rightarrow> ServerSettings \<Rightarrow> string \<rightharpoonup> (arguments \<Rightarrow> content list io)" where
  "handlers w s =
     map_of [(''bwa_index'', run_index w s),
             (''bwa_mem'', run_mem w s),
             (''bwa_aln'', run_aln w s),
             (''bwa_samse'', run_samse w s),
             (''bwa_sampe'', run_sampe w s)]"

definition call_tool ::
  "world \<Rightarrow> ServerSettings \<Rightarrow> string \<Rightarrow> arguments \<Rightarrow> content list io" where
  "call_tool w s name args =
     (case handlers w s name of
        Some handler \<Rightarrow> handler args
      | None \<Rightarrow> ret [ErrorContent (''Unknown tool: '' @ name)])"

section \<open>Specification vocabulary\<close>

text \<open>The five operation names the dispatcher knows, and the path parameters each
  tool's input schema lists as required, in the order the handler reads them.\<close>

definition tool_names :: "string list" where
  "tool_names = [''bwa_index'', ''bwa_mem'', ''bwa_aln'', ''bwa_samse'', ''bwa_sampe'']"

definition required_paths :: "string \<Rightarrow> string list" where
  "required_paths name =
     (if name = ''bwa_index'' then [''reference_fasta'']
      else if name = ''bwa_mem'' then [''reference'', ''reads1'']
      else if name = ''bwa_aln'' then [''reference'', ''reads'']
      else if name = ''bwa_samse'' then [''reference'', ''sai_file'', ''reads'']
      else if name = ''bwa_sampe''
        then [''reference'', ''sai_file1'', ''sai_file2'', ''reads1'', ''reads2'']
      else [])"

text \<open>A computation that leaves the state as it found it.\<close>

definition read_only :: "'a io \<Rightarrow> bool" where
  "read_only m = (\<forall>st. snd (m st) = st)"

text \<open>A postcondition relating the starting state, the outcome and the final state.\<close>

definition ensures :: "'a io \<Rightarrow> (sys \<Rightarrow> exn + 'a \<Rightarrow> sys \<Rightarrow> bool) \<Rightarrow> bool" where
  "ensures m Q = (\<forall>st. Q st (fst (m st)) (snd (m st)))"

text \<open>An outcome that, when it is a return, returns exactly one content item.\<close>

definition single :: "exn + content list \<Rightarrow> bool" where
  "single r = (case r of Inl e \<Rightarrow> True | Inr cs \<Rightarrow> length cs = 1)"

text \<open>The operations that work in a temporary directory, and the name of the
  output file each creates there.\<close>

definition tmp_tools :: "string list" where
  "tmp_tools = [''bwa_mem'', ''bwa_aln'', ''bwa_samse'', ''bwa_sampe'']"

definition output_name :: "string \<Rightarrow> string" where
  "output_name name = (if name = ''bwa_aln'' then ''alignment.sai'' else ''alignment.sam'')"

text \<open>The directory name \<open>tempfile\<close> would pick in state \<open>st\<close> is new: neither it
  nor anything inside it exists yet.\<close>

definition fresh_tmp :: "world \<Rightarrow> ServerSettings \<Rightarrow> sys \<Rightarrow> bool" where
  "fresh_tmp w s st =
     (\<forall>p. inside (tmp_name w (temp_dir s) (files st)) p \<longrightarrow> files st p = None)"

text \<open>If the temporary directory was new at \<open>st\<close>, nothing of it is left at \<open>st'\<close>.\<close>

definition tmp_clean :: "world \<Rightarrow> ServerSettings \<Rightarrow> sys \<Rightarrow> sys \<Rightarrow> bool" where
  "tmp_clean w s st st' =
     (fresh_tmp w s st \<longrightarrow>
      (\<forall>p. inside (tmp_name w (temp_dir s) (files st)) p \<longrightarrow> files st' p = None))"

text \<open>A success response names the path \<open>out\<close> in its text.\<close>

definition names_output :: "string \<Rightarrow> exn + content list \<Rightarrow> bool" where
  "names_output out r =
     (\<forall>t. r = Inr [TextContent t] \<longrightarrow> (\<exists>pre post. t = pre @ out @ post))"

text \<open>
  A success response names the output file inside the temporary directory of the
  call, and at \<open>st'\<close> nothing of that directory is left.
\<close>

definition success_gone ::
  "world \<Rightarrow> ServerSettings \<Rightarrow> string \<Rightarrow> sys \<Rightarrow> exn + content list \<Rightarrow> sys \<Rightarrow> bool" where
  "success_gone w s name st r st' =
     (\<forall>t. r = Inr [TextContent t] \<longrightarrow>
        names_output
          (path_str w (tmp_name w (temp_dir s) (files st) @ ''/'' @ output_name name)) r
        \<and> (\<forall>p. inside (tmp_name w (temp_dir s) (files st)) p \<longrightarrow> files st' p = None))"

text \<open>If the call launched a process, then \<open>R\<close> holds of the outcome and of the
  process lists before and after.\<close>

definition launched_then ::
  "(exn + 'a \<Rightarrow> (string list \<times> pstatus) list \<Rightarrow> (string list \<times> pstatus) list \<Rightarrow> bool)
     \<Rightarrow> sys \<Rightarrow> exn + 'a \<Rightarrow> sys \<Rightarrow> bool" where
  "launched_then R st r st' = (procs st' \<noteq> procs st \<longrightarrow> R r (procs st) (procs st'))"

section \<open>Example environments\<close>

text \<open>
  An environment in which paths are already in normal form, no library call
  fails, and the binary behaves as \<open>r\<close> whatever its arguments; and one in which
  decoding the bytes \<open>bad\<close> raises with message \<open>msg\<close>.
\<close>

definition plain_world :: "proc_result \<Rightarrow> world" where
  "plain_world r =
     \<lparr>path_str = (\<lambda>s. s),
      path_type_error = (\<lambda>v. ''expected str, bytes or os.PathLike object''),
      exec_type_error = (\<lambda>v. ''program arguments must be a bytes or text string''),
      fault = (\<lambda>c. None),
      os_error = (\<lambda>p. ''[Errno 2] No such file or directory''),
      tmp_name = (\<lambda>d f. ''/tmp/tmpk3v9xq2a''),
      dir_size = 4096,
      child = (\<lambda>argv t f. r),
      child_writes = (\<lambda>argv t f. f)\<rparr>"

definition strict_world :: "proc_result \<Rightarrow> string \<Rightarrow> string \<Rightarrow> world" where
  "strict_world r bad msg =
     (plain_world r)\<lparr>fault := (\<lambda>c. if c = CDecode bad then Some msg else None)\<rparr>"

text \<open>The message of the \<open>UnicodeDecodeError\<close> for the single byte \<open>0xff\<close>.\<close>

definition invalid_start_msg :: string where
  "invalid_start_msg =
     [CHR 0x27] @ ''utf-8'' @ [CHR 0x27] @ '' codec can'' @ [CHR 0x27] @
     ''t decode byte 0xff in position 0: invalid start byte''"

text \<open>A state with the given files and no processes.\<close>

definition sys_with :: "(string \<times> node) list \<Rightarrow> sys" where
  "sys_with fl = \<lparr>files = map_of fl, procs = []\<rparr>"

section \<open>Basic facts about the combinators\<close>

lemma bnd_ret [simp]: "bnd (ret x) f = f x"
  by (rule ext) (simp add: bnd_def ret_def)

lemma bnd_throw [simp]: "bnd (throw e) f = throw e"
  by (rule ext) (simp add: bnd_def throw_def)

lemmas example_defs = plain_world_def strict_world_def sys_with_def default_settings_def

section \<open>The \<open>max_file_size\<close> setting\<close>

lemma spawn_wait_mfs: "spawn_wait w (s\<lparr>max_file_size := m\<rparr>) = spawn_wait w s"
  by (intro ext) (simp add: spawn_wait_def split: option.splits)

lemma with_tmpdir_mfs: "with_tmpdir w (s\<lparr>max_file_size := m\<rparr>) = with_tmpdir w s"
  by (intro ext) (simp add: with_tmpdir_def split: option.splits)

lemma run_index_mfs: "run_index w (s\<lparr>max_file_size := m\<rparr>) = run_index w s"
  by (rule ext)
    (simp add: run_index_def run_index_body_def spawn_wait_mfs index_cmd_def cong: if_cong)

lemma run_mem_tmp_mfs:
  "run_mem_tmp w (s\<lparr>max_file_size := m\<rparr>) args r r1 = run_mem_tmp w s args r r1"
  by (rule ext) (simp add: run_mem_tmp_def spawn_wait_mfs mem_cmd_def)

lemma run_mem_mfs: "run_mem w (s\<lparr>max_file_size := m\<rparr>) = run_mem w s"
  by (rule ext)
    (simp add: run_mem_def run_mem_body_def run_mem_tmp_mfs with_tmpdir_mfs cong: if_cong)

lemma run_aln_tmp_mfs:
  "run_aln_tmp w (s\<lparr>max_file_size := m\<rparr>) args r r1 = run_aln_tmp w s args r r1"
  by (rule ext) (simp add: run_aln_tmp_def spawn_wait_mfs aln_cmd_def)

lemma run_aln_mfs: "run_aln w (s\<lparr>max_file_size := m\<rparr>) = run_aln w s"
  by (rule ext)
    (simp add: run_aln_def run_aln_body_def run_aln_tmp_mfs with_tmpdir_mfs cong: if_cong)

lemma run_samse_tmp_mfs:
  "run_samse_tmp w (s\<lparr>max_file_size := m\<rparr>) r a b = run_samse_tmp w s r a b"
  by (rule ext) (simp add: run_samse_tmp_def spawn_wait_mfs)

lemma run_samse_mfs: "run_samse w (s\<lparr>max_file_size := m\<rparr>) = run_samse w s"
  by (rule ext)
    (simp add: run_samse_def run_samse_body_def run_samse_tmp_mfs with_tmpdir_mfs
       cong: option.case_cong)

lemma run_sampe_tmp_mfs:
  "run_sampe_tmp w (s\<lparr>max_file_size := m\<rparr>) r a b c d = run_sampe_tmp w s r a b c d"
  by (rule ext) (simp add: run_sampe_tmp_def spawn_wait_mfs)

lemma run_sampe_mfs: "run_sampe w (s\<lparr>max_file_size := m\<rparr>) = run_sampe w s"
  by (rule ext)
    (simp add: run_sampe_def run_sampe_body_def run_sampe_tmp_mfs with_tmpdir_mfs
       cong: option.case_cong)

text \<open>
  Claim C10. No operation reads \<open>max_file_size\<close>: a call under settings that differ
  only in that field returns the same response and leaves the same files and
  processes, whatever the operation name, the arguments, the environment and
  the starting state.
\<close>

theorem max_file_size_never_read:
  "call_tool w (s\<lparr>max_file_size := m\<rparr>) name args st = call_tool w s name args st"
  by (simp add: call_tool_def handlers_def run_index_mfs run_mem_mfs run_aln_mfs
      run_samse_mfs run_sampe_mfs)

section \<open>How each operation continues\<close>

lemma bnd_subscript:
  "bnd (subscript args k) f
   = (case args k of None \<Rightarrow> throw (Exn (key_repr k)) | Some v \<Rightarrow> f v)"
  by (simp add: subscript_def split: option.splits)

lemma bnd_Path:
  "bnd (Path w v) f
   = (case v of VStr p \<Rightarrow> f (path_str w p) | _ \<Rightarrow> throw (Exn (path_type_error w v)))"
  by (simp add: Path_def split: pyval.splits)

lemma bnd_path_exists:
  "bnd (path_exists w p) f st
   = (case fault w (CExists p) of
        Some m \<Rightarrow> (Inl (Exn m), st)
      | None \<Rightarrow> f (files st p \<noteq> None) st)"
  by (simp add: bnd_def path_exists_def split: option.splits)

lemma bnd_stat_size:
  "bnd (stat_size w p) f st
   = (case fault w (CStat p) of
        Some m \<Rightarrow> (Inl (Exn m), st)
      | None \<Rightarrow>
          (case files st p of
             None \<Rightarrow> (Inl (Exn (os_error w p)), st)
           | Some (File b) \<Rightarrow> f (length b) st
           | Some Dir \<Rightarrow> f (dir_size w) st))"
  by (simp add: bnd_def stat_size_def split: option.splits node.splits)

lemma bnd_decode:
  "bnd (decode w b) f st
   = (case fault w (CDecode b) of Some m \<Rightarrow> (Inl (Exn m), st) | None \<Rightarrow> f b st)"
  by (simp add: decode_def throw_def split: option.splits)

lemma bnd_open_w:
  "bnd (open_w w p) f st
   = (case fault w (COpenW p) of
        Some m \<Rightarrow> (Inl (Exn m), st)
      | None \<Rightarrow>
          (case files st p of
             Some Dir \<Rightarrow> (Inl (Exn (os_error w p)), st)
           | _ \<Rightarrow> f () (st\<lparr>files := (files st)(p \<mapsto> File [])\<rparr>)))"
  by (simp add: bnd_def open_w_def split: option.splits node.splits)

lemma bnd_read_lines:
  "bnd (read_lines w p) f st
   = (case fault w (COpenR p) of
        Some m \<Rightarrow> (Inl (Exn m), st)
      | None \<Rightarrow>
          (case files st p of
             Some (File b) \<Rightarrow> f (split_lines [] b) st
           | _ \<Rightarrow> (Inl (Exn (os_error w p)), st)))"
  by (simp add: bnd_def read_lines_def split: option.splits node.splits)

lemma bnd_spawn_wait:
  "bnd (spawn_wait w s cmd out) f st
   = (case bad_arg cmd of
        Some v \<Rightarrow> (Inl (Exn (exec_type_error w v)), st)
      | None \<Rightarrow>
          (case child w (map py_str cmd) (timeout s) (files st) of
             SpawnError m \<Rightarrow> (Inl (Exn m), st)
           | TimedOut partial \<Rightarrow>
               (Inl (Exn []),
                st\<lparr>files := redirect out partial
                               (child_writes w (map py_str cmd) (timeout s) (files st)),
                   procs := procs st @ [(map py_str cmd, Running)]\<rparr>)
           | Exited rc ob eb \<Rightarrow>
               f (rc, eb)
                 (st\<lparr>files := redirect out ob
                                 (child_writes w (map py_str cmd) (timeout s) (files st)),
                     procs := procs st @ [(map py_str cmd, Finished rc)]\<rparr>)))"
  by (simp add: bnd_def spawn_wait_def Let_def split: option.splits proc_result.splits)

lemmas bnd_ops = bnd_subscript bnd_Path bnd_path_exists bnd_stat_size bnd_decode
  bnd_open_w bnd_read_lines bnd_spawn_wait

section \<open>State left by the read-only steps\<close>

lemma try_except_Inr: "m st = (Inr r, st') \<Longrightarrow> try_except m st = (Inr r, st')"
  by (simp add: try_except_def)

lemma try_except_Inl:
  "m st = (Inl (Exn msg), st') \<Longrightarrow> try_except m st = (Inr [ErrorContent (''Error: '' @ msg)], st')"
  by (simp add: try_except_def)

lemma snd_try_except: "snd (try_except m st) = snd (m st)"
  by (simp add: try_except_def split: prod.splits sum.splits exn.splits)

lemma decode_state: "snd (bnd (decode w b) (\<lambda>t. ret (g t)) st) = st"
  by (simp add: decode_def bnd_def ret_def throw_def split: option.splits)

lemma path_exists_state: "snd (path_exists w p st) = st"
  by (simp add: path_exists_def split: option.splits)

lemma with_suffix_state: "snd (with_suffix w p x st) = st"
  by (simp add: with_suffix_def ret_def throw_def split: option.splits)

lemma index_files_state: "snd (index_files w p l st) = st"
proof (induction l arbitrary: st)
  case Nil
  then show ?case by simp
next
  case (Cons x l)
  obtain r1 st1 where a: "with_suffix w p x st = (r1, st1)" by (cases "with_suffix w p x st")
  with with_suffix_state [of w p x st] have s1: "st1 = st" by simp
  show ?case
  proof (cases r1)
    case (Inl e)
    with a s1 show ?thesis by simp
  next
    case (Inr f)
    obtain r2 st2 where b: "path_exists w f st = (r2, st2)" by (cases "path_exists w f st")
    with path_exists_state [of w f st] have s2: "st2 = st" by simp
    show ?thesis
    proof (cases r2)
      case (Inl e)
      with a s1 b s2 Inr show ?thesis by simp
    next
      case ex: (Inr ex)
      obtain r3 st3 where c: "index_files w p l st = (r3, st3)" by (cases "index_files w p l st")
      with Cons.IH [of st] have s3: "st3 = st" by simp
      with a s1 b s2 Inr ex c show ?thesis by (cases r3) simp_all
    qed
  qed
qed

lemma index_tail_state:
  "snd (bnd (index_files w p l) (\<lambda>found. ret (g found)) st) = st"
  using index_files_state [of w p l st]
  by (cases "index_files w p l st") (auto simp: bnd_def ret_def split: sum.splits)

section \<open>The algorithm chosen by the index operation\<close>

lemmas index_unfold = call_tool_def handlers_def run_index_def run_index_body_def Let_def

lemma index_launch:
  assumes ref: "args ''reference_fasta'' = Some (VStr r)"
    and ex: "fault w (CExists (path_str w r)) = None"
    and stt: "fault w (CStat (path_str w r)) = None"
    and fl: "files st (path_str w r) = Some (File b)"
    and launch: "\<And>argv m. child w argv (timeout s) (files st) \<noteq> SpawnError m"
    and alg: "choose_algorithm args (length b) = VStr a"
  shows "map fst (procs (snd (call_tool w s ''bwa_index'' args st)))
         = map fst (procs st) @ [[bwa_path s, ''index'', ''-a'', a, path_str w r]]"
proof -
  let ?argv = "[bwa_path s, ''index'', ''-a'', a, path_str w r]"
  have ne: "\<And>m. child w ?argv (timeout s) (files st) \<noteq> SpawnError m"
    by (rule launch)
  have bad: "bad_arg (index_cmd s (VStr a) (path_str w r)) = None"
    and argv: "map py_str (index_cmd s (VStr a) (path_str w r)) = ?argv"
    by (simp_all add: index_cmd_def)
  show ?thesis
  proof (cases "child w ?argv (timeout s) (files st)")
    case (SpawnError m)
    with ne [of m] show ?thesis by simp
  next
    case (TimedOut partial)
    then show ?thesis
      by (simp add: index_unfold snd_try_except bnd_ops ref ex stt fl alg bad argv)
  next
    case (Exited rc out_bytes err_bytes)
    then show ?thesis
      by (cases "rc = 0")
        (simp_all add: index_unfold snd_try_except bnd_subscript bnd_Path bnd_path_exists
          bnd_stat_size bnd_spawn_wait ref ex stt fl alg bad argv
          decode_state index_tail_state
          del: index_files.simps)
  qed
qed


text \<open>
  Claim C3, as the code has it. For an index call on an existing reference file
  of \<open>length b\<close> bytes whose binary can be launched: with no \<open>algorithm\<close>
  parameter the argument vector names \<open>is\<close> when the size is at most
  2,000,000,000 bytes and \<open>bwtsw\<close> when it is larger; with an explicit
  \<open>algorithm\<close> string the vector names that string, whatever the size.
\<close>

theorem index_algorithm_choice:
  assumes ref: "args ''reference_fasta'' = Some (VStr r)"
    and ex: "fault w (CExists (path_str w r)) = None"
    and stt: "fault w (CStat (path_str w r)) = None"
    and fl: "files st (path_str w r) = Some (File b)"
    and launch: "\<And>argv m. child w argv (timeout s) (files st) \<noteq> SpawnError m"
  shows "(args ''algorithm'' = None \<longrightarrow>
            map fst (procs (snd (call_tool w s ''bwa_index'' args st)))
            = map fst (procs st) @
              [[bwa_path s, ''index'', ''-a'',
                (if length b \<le> 2000000000 then ''is'' else ''bwtsw''), path_str w r]])
       \<and> (\<forall>a. args ''algorithm'' = Some (VStr a) \<longrightarrow>
            map fst (procs (snd (call_tool w s ''bwa_index'' args st)))
            = map fst (procs st) @ [[bwa_path s, ''index'', ''-a'', a, path_str w r]])"
proof (intro conjI impI allI)
  assume none: "args ''algorithm'' = None"
  have "choose_algorithm args (length b)
        = VStr (if length b \<le> 2000000000 then ''is'' else ''bwtsw'')"
    by (simp add: choose_algorithm_def get_default_def none size_threshold_def)
  from index_launch [OF ref ex stt fl launch this]
  show "map fst (procs (snd (call_tool w s ''bwa_index'' args st)))
        = map fst (procs st) @
          [[bwa_path s, ''index'', ''-a'',
            (if length b \<le> 2000000000 then ''is'' else ''bwtsw''), path_str w r]]" .
next
  fix a
  assume some: "args ''algorithm'' = Some (VStr a)"
  have "choose_algorithm args (length b) = VStr a"
    by (simp add: choose_algorithm_def get_default_def some)
  from index_launch [OF ref ex stt fl launch this]
  show "map fst (procs (snd (call_tool w s ''bwa_index'' args st)))
        = map fst (procs st) @ [[bwa_path s, ''index'', ''-a'', a, path_str w r]]" .
qed

theorem index_algorithm_choice_witness:
  "map fst (procs (snd (call_tool (plain_world (Exited 0 [] [])) default_settings ''bwa_index''
       [''reference_fasta'' \<mapsto> VStr ''ref.fa'']
       (sys_with [(''ref.fa'', File ''ACGT'')]))))
   = [[''bwa'', ''index'', ''-a'', ''is'', ''ref.fa'']]
   \<and> map fst (procs (snd (call_tool (plain_world (Exited 0 [] [])) default_settings ''bwa_index''
       [''reference_fasta'' \<mapsto> VStr ''ref.fa'', ''algorithm'' \<mapsto> VStr ''bwtsw'']
       (sys_with [(''ref.fa'', File ''ACGT'')]))))
   = [[''bwa'', ''index'', ''-a'', ''bwtsw'', ''ref.fa'']]"
  using
    index_algorithm_choice [of "[''reference_fasta'' \<mapsto> VStr ''ref.fa'']" "''ref.fa''"
      "plain_world (Exited 0 [] [])" "sys_with [(''ref.fa'', File ''ACGT'')]" "''ACGT''"
      default_settings]
    index_algorithm_choice [of
      "[''reference_fasta'' \<mapsto> VStr ''ref.fa'', ''algorithm'' \<mapsto> VStr ''bwtsw'']" "''ref.fa''"
      "plain_world (Exited 0 [] [])" "sys_with [(''ref.fa'', File ''ACGT'')]" "''ACGT''"
      default_settings]
  by (simp add: example_defs)

text \<open>
  The claim as stated puts the boundary itself on the \<open>bwtsw\<close> side. A reference
  of exactly 2,000,000,000 bytes is indexed with \<open>is\<close>; one byte more gives
  \<open>bwtsw\<close>.
\<close>

theorem index_at_threshold_counterexample:
  "map fst (procs (snd (call_tool (plain_world (Exited 0 [] [])) default_settings ''bwa_index''
       [''reference_fasta'' \<mapsto> VStr ''ref.fa'']
       (sys_with [(''ref.fa'', File (replicate 2000000000 (CHR ''A'')))]))))
   = [[''bwa'', ''index'', ''-a'', ''is'', ''ref.fa'']]
   \<and> map fst (procs (snd (call_tool (plain_world (Exited 0 [] [])) default_settings ''bwa_index''
       [''reference_fasta'' \<mapsto> VStr ''ref.fa'']
       (sys_with [(''ref.fa'', File (replicate 2000000001 (CHR ''A'')))]))))
   = [[''bwa'', ''index'', ''-a'', ''bwtsw'', ''ref.fa'']]"
proof -
  let ?w = "plain_world (Exited 0 [] [])"
  let ?args = "[''reference_fasta'' \<mapsto> VStr ''ref.fa'']"
  have a: "choose_algorithm ?args (length (replicate 2000000000 (CHR ''A''))) = VStr ''is''"
    by (simp add: choose_algorithm_def get_default_def size_threshold_def)
  have b: "choose_algorithm ?args (length (replicate 2000000001 (CHR ''A''))) = VStr ''bwtsw''"
    by (simp add: choose_algorithm_def get_default_def size_threshold_def)
  show ?thesis
    using
      index_launch [of ?args "''ref.fa''" ?w
        "sys_with [(''ref.fa'', File (replicate 2000000000 (CHR ''A'')))]"
        "replicate 2000000000 (CHR ''A'')" default_settings "''is''"]
      index_launch [of ?args "''ref.fa''" ?w
        "sys_with [(''ref.fa'', File (replicate 2000000001 (CHR ''A'')))]"
        "replicate 2000000001 (CHR ''A'')" default_settings "''bwtsw''"]
      a b
    by (simp add: example_defs)
qed

section \<open>Rules for postconditions\<close>

lemma ensuresI: "(\<And>st. Q st (fst (m st)) (snd (m st))) \<Longrightarrow> ensures m Q"
  by (simp add: ensures_def)

lemma ensuresD: "ensures m Q \<Longrightarrow> m st = (r, st') \<Longrightarrow> Q st r st'"
  by (auto simp: ensures_def dest: spec [of _ st])

lemma ensures_ret: "(\<And>st. Q st (Inr x) st) \<Longrightarrow> ensures (ret x) Q"
  by (simp add: ensures_def ret_def)

lemma ensures_throw: "(\<And>st. Q st (Inl e) st) \<Longrightarrow> ensures (throw e) Q"
  by (simp add: ensures_def throw_def)

lemma ensures_if: "ensures m Q \<Longrightarrow> ensures n Q \<Longrightarrow> ensures (if c then m else n) Q"
  by simp

lemma ensures_bnd_ro:
  assumes ro: "read_only m"
    and err: "\<And>st e. Q st (Inl e) st"
    and cont: "\<And>x. ensures (f x) Q"
  shows "ensures (bnd m f) Q"
proof (rule ensuresI)
  fix st
  obtain r st1 where m: "m st = (r, st1)" by (cases "m st")
  with ro have st1: "st1 = st" by (auto simp: read_only_def dest: spec [of _ st])
  show "Q st (fst (bnd m f st)) (snd (bnd m f st))"
  proof (cases r)
    case (Inl e)
    with m st1 err show ?thesis by (simp add: bnd_def)
  next
    case (Inr x)
    with m st1 cont [of x] show ?thesis by (simp add: bnd_def ensures_def)
  qed
qed

lemma ensures_bnd_result:
  assumes err: "\<And>e. P (Inl e)"
    and cont: "\<And>x. ensures (f x) (\<lambda>_ r _. P r)"
  shows "ensures (bnd m f) (\<lambda>_ r _. P r)"
proof (rule ensuresI)
  fix st
  obtain r st1 where m: "m st = (r, st1)" by (cases "m st")
  show "P (fst (bnd m f st))"
  proof (cases r)
    case (Inl e)
    with m err show ?thesis by (simp add: bnd_def)
  next
    case (Inr x)
    with m cont [of x] show ?thesis by (simp add: bnd_def ensures_def)
  qed
qed

lemma ensures_with_tmpdir_result:
  assumes err: "\<And>e. P (Inl e)"
    and body: "\<And>d. ensures (body d) (\<lambda>_ r _. P r)"
  shows "ensures (with_tmpdir w s body) (\<lambda>_ r _. P r)"
proof (rule ensuresI)
  fix st
  show "P (fst (with_tmpdir w s body st))"
  proof (cases "fault w (CMkdtemp (temp_dir s))")
    case (Some m)
    with err show ?thesis by (simp add: with_tmpdir_def)
  next
    case None
    with body show ?thesis
      by (simp add: with_tmpdir_def Let_def ensures_def split: prod.splits)
        (metis fst_conv)
  qed
qed

section \<open>Steps that only read\<close>

lemma read_only_subscript: "read_only (subscript args k)"
  by (simp add: read_only_def subscript_def ret_def throw_def split: option.splits)

lemma read_only_Path: "read_only (Path w v)"
  by (simp add: read_only_def Path_def ret_def throw_def split: pyval.splits)

lemma read_only_path_exists: "read_only (path_exists w p)"
  by (simp add: read_only_def path_exists_def split: option.splits)

lemma read_only_stat_size: "read_only (stat_size w p)"
  by (simp add: read_only_def stat_size_def split: option.splits node.splits)

lemma read_only_decode: "read_only (decode w b)"
  by (simp add: read_only_def decode_def ret_def throw_def split: option.splits)

lemma read_only_read_lines: "read_only (read_lines w p)"
  by (simp add: read_only_def read_lines_def split: option.splits node.splits)

lemma check_files_state: "snd (check_files w ps st) = st"
  by (induction ps arbitrary: st) (simp_all add: path_exists_def split: option.splits)

lemma read_only_check_files: "read_only (check_files w ps)"
  by (simp add: read_only_def check_files_state)

lemma read_only_index_files: "read_only (index_files w p l)"
  by (simp add: read_only_def index_files_state)

lemma read_only_mem_reads2: "read_only (mem_reads2 w args)"
  by (simp add: read_only_def mem_reads2_def bnd_Path bnd_path_exists ret_def throw_def
      split: pyval.splits option.splits)

section \<open>Every call returns one response\<close>

lemma single_simps [simp]: "single (Inl e)" "single (Inr [c])"
  by (simp_all add: single_def)

lemmas single_rules =
  ensures_bnd_result [where P = single] ensures_with_tmpdir_result [where P = single]
  ensures_ret [where Q = "\<lambda>_ r _. single r"] ensures_throw [where Q = "\<lambda>_ r _. single r"]
  ensures_if

lemma single_index: "ensures (run_index_body w s args) (\<lambda>_ r _. single r)"
  unfolding run_index_body_def Let_def
  by (intro single_rules) (simp_all add: split_def single_rules)

lemma single_mem: "ensures (run_mem_body w s args) (\<lambda>_ r _. single r)"
  unfolding run_mem_body_def run_mem_tmp_def Let_def
  by (intro single_rules) (simp_all add: split_def single_rules)

lemma single_aln: "ensures (run_aln_body w s args) (\<lambda>_ r _. single r)"
  unfolding run_aln_body_def run_aln_tmp_def Let_def
  by (intro single_rules) (simp_all add: split_def single_rules)

lemma single_samse: "ensures (run_samse_body w s args) (\<lambda>_ r _. single r)"
  unfolding run_samse_body_def run_samse_tmp_def Let_def
  by (intro single_rules) (simp_all add: split_def single_rules split: option.splits)

lemma single_sampe: "ensures (run_sampe_body w s args) (\<lambda>_ r _. single r)"
  unfolding run_sampe_body_def run_sampe_tmp_def Let_def
  by (intro single_rules) (simp_all add: split_def single_rules split: option.splits)

lemma try_except_single:
  assumes "ensures body (\<lambda>_ r _. single r)"
  shows "\<exists>c st'. try_except body st = (Inr [c], st')"
proof -
  obtain r st1 where b: "body st = (r, st1)" by (cases "body st")
  show ?thesis
  proof (cases r)
    case (Inl e)
    with b show ?thesis by (cases e) (simp add: try_except_def)
  next
    case (Inr cs)
    with b ensuresD [OF assms b] obtain c where "cs = [c]"
      by (cases cs) (auto simp: single_def)
    with b Inr show ?thesis by (simp add: try_except_def)
  qed
qed

text \<open>
  Claim C5. Whatever the operation name, the arguments, the environment and the
  state, \<open>call_tool\<close> returns (it never raises) a list of exactly one content
  item; a name outside the five operations yields the error item naming it; and
  whenever the body of a handler raises an exception with message \<open>msg\<close>, the
  handler returns the single error item \<open>Error: msg\<close>.
\<close>

theorem call_tool_always_responds:
  "(\<exists>c st'. call_tool w s name args st = (Inr [c], st'))
   \<and> (name \<notin> set tool_names \<longrightarrow>
        call_tool w s name args st = (Inr [ErrorContent (''Unknown tool: '' @ name)], st))
   \<and> (\<forall>msg st'. run_index_body w s args st = (Inl (Exn msg), st') \<longrightarrow>
        run_index w s args st = (Inr [ErrorContent (''Error: '' @ msg)], st'))
   \<and> (\<forall>msg st'. run_mem_body w s args st = (Inl (Exn msg), st') \<longrightarrow>
        run_mem w s args st = (Inr [ErrorContent (''Error: '' @ msg)], st'))
   \<and> (\<forall>msg st'. run_aln_body w s args st = (Inl (Exn msg), st') \<longrightarrow>
        run_aln w s args st = (Inr [ErrorContent (''Error: '' @ msg)], st'))
   \<and> (\<forall>msg st'. run_samse_body w s args st = (Inl (Exn msg), st') \<longrightarrow>
        run_samse w s args st = (Inr [ErrorContent (''Error: '' @ msg)], st'))
   \<and> (\<forall>msg st'. run_sampe_body w s args st = (Inl (Exn msg), st') \<longrightarrow>
        run_sampe w s args st = (Inr [ErrorContent (''Error: '' @ msg)], st'))"
proof (intro conjI)
  show "\<exists>c st'. call_tool w s name args st = (Inr [c], st')"
    using try_except_single [OF single_index, of w s args st]
      try_except_single [OF single_mem, of w s args st]
      try_except_single [OF single_aln, of w s args st]
      try_except_single [OF single_samse, of w s args st]
      try_except_single [OF single_sampe, of w s args st]
    by (simp add: call_tool_def handlers_def run_index_def run_mem_def run_aln_def
        run_samse_def run_sampe_def ret_def)
  show "name \<notin> set tool_names \<longrightarrow>
        call_tool w s name args st = (Inr [ErrorContent (''Unknown tool: '' @ name)], st)"
    by (simp add: call_tool_def handlers_def tool_names_def ret_def)
qed (simp_all add: run_index_def run_mem_def run_aln_def run_samse_def run_sampe_def
    try_except_def)

theorem call_tool_always_responds_witness:
  "call_tool (plain_world (Exited 0 [] [])) default_settings ''bwa_sort'' Map.empty (sys_with [])
   = (Inr [ErrorContent ''Unknown tool: bwa_sort''], sys_with [])
   \<and> run_index (plain_world (Exited 0 [] [])) default_settings Map.empty (sys_with [])
     = (Inr [ErrorContent (''Error: '' @ key_repr ''reference_fasta'')], sys_with [])"
proof -
  have "run_index_body (plain_world (Exited 0 [] [])) default_settings Map.empty (sys_with [])
        = (Inl (Exn (key_repr ''reference_fasta'')), sys_with [])"
    by (simp add: run_index_body_def bnd_subscript throw_def)
  with call_tool_always_responds [of "plain_world (Exited 0 [] [])" default_settings
      "''bwa_sort''" Map.empty "sys_with []"]
  show ?thesis by (simp add: tool_names_def)
qed

section \<open>The temporary directory is removed\<close>

lemma with_tmpdir_removes:
  "inside (tmp_name w (temp_dir s) (files st)) p
   \<Longrightarrow> fault w (CMkdtemp (temp_dir s)) = None
   \<Longrightarrow> files (snd (with_tmpdir w s body st)) p = None"
  by (simp add: with_tmpdir_def Let_def rmtree_def split: prod.splits)

lemma with_tmpdir_fault:
  "fault w (CMkdtemp (temp_dir s)) = Some m \<Longrightarrow> with_tmpdir w s body st = (Inl (Exn m), st)"
  by (simp add: with_tmpdir_def)

lemma ensures_with_tmpdir_clean:
  "ensures (with_tmpdir w s body) (\<lambda>st r st'. tmp_clean w s st st')"
proof (rule ensuresI)
  fix st
  show "tmp_clean w s st (snd (with_tmpdir w s body st))"
  proof (cases "fault w (CMkdtemp (temp_dir s))")
    case None
    then show ?thesis by (simp add: tmp_clean_def with_tmpdir_removes)
  next
    case (Some m)
    then show ?thesis by (simp add: tmp_clean_def fresh_tmp_def with_tmpdir_fault)
  qed
qed

lemma tmp_clean_refl [simp]: "tmp_clean w s st st"
  by (simp add: tmp_clean_def fresh_tmp_def)

lemmas clean_rules =
  ensures_bnd_ro [where Q = "\<lambda>st r st'. tmp_clean w s st st'" for w s]
  ensures_ret [where Q = "\<lambda>st r st'. tmp_clean w s st st'" for w s]
  ensures_if ensures_with_tmpdir_clean
  read_only_subscript read_only_Path read_only_path_exists read_only_check_files

lemma clean_mem: "ensures (run_mem_body w s args) (\<lambda>st r st'. tmp_clean w s st st')"
  unfolding run_mem_body_def
  by (intro clean_rules) simp_all

lemma clean_aln: "ensures (run_aln_body w s args) (\<lambda>st r st'. tmp_clean w s st st')"
  unfolding run_aln_body_def
  by (intro clean_rules) simp_all

lemma ensures_case_option:
  "ensures m Q \<Longrightarrow> (\<And>x. ensures (f x) Q) \<Longrightarrow> ensures (case v of None \<Rightarrow> m | Some x \<Rightarrow> f x) Q"
  by (cases v) simp_all

lemma clean_samse: "ensures (run_samse_body w s args) (\<lambda>st r st'. tmp_clean w s st st')"
  unfolding run_samse_body_def
  by (intro clean_rules ensures_case_option) simp_all

lemma clean_sampe: "ensures (run_sampe_body w s args) (\<lambda>st r st'. tmp_clean w s st st')"
  unfolding run_sampe_body_def
  by (intro clean_rules ensures_case_option) simp_all

lemma try_except_clean:
  assumes "ensures body (\<lambda>st r st'. tmp_clean w s st st')"
  shows "tmp_clean w s st (snd (try_except body st))"
  using assms by (simp add: snd_try_except ensures_def)


lemma read_only_ret: "read_only (ret x)"
  by (simp add: read_only_def ret_def)

lemma read_only_bnd:
  assumes "read_only m" and "\<And>x. read_only (f x)"
  shows "read_only (bnd m f)"
  unfolding read_only_def
proof
  fix st
  obtain r st1 where m: "m st = (r, st1)" by (cases "m st")
  with assms(1) have "st1 = st" by (auto simp: read_only_def dest: spec [of _ st])
  with m assms(2) show "snd (bnd m f st) = st"
    by (cases r) (auto simp: bnd_def read_only_def)
qed

lemma read_only_index_tail:
  "read_only (\<lambda>st. (case x of (returncode, stderr) \<Rightarrow>
      if returncode \<noteq> 0 then bnd (decode w stderr) (\<lambda>t. ret (g t))
      else bnd (index_files w p l) (\<lambda>found. ret (h found))) st)"
  by (cases x) (simp add: read_only_bnd read_only_decode read_only_index_files read_only_ret)

lemma ensures_spawn_pipe:
  assumes "\<And>x. read_only (f x)"
  shows "ensures (bnd (spawn_wait w s cmd None) f)
           (\<lambda>st r st'. files st' = files st
              \<or> (\<exists>argv. files st' = child_writes w argv (timeout s) (files st)))"
proof (rule ensuresI)
  fix st
  from assms have ro: "\<And>x st1. snd (f x st1) = st1" by (simp add: read_only_def)
  show "files (snd (bnd (spawn_wait w s cmd None) f st)) = files st
        \<or> (\<exists>argv. files (snd (bnd (spawn_wait w s cmd None) f st))
                   = child_writes w argv (timeout s) (files st))"
    by (auto simp: bnd_spawn_wait redirect_def ro split: option.splits proc_result.splits)
qed

lemma index_fs:
  "ensures (run_index_body w s args)
     (\<lambda>st r st'. files st' = files st
        \<or> (\<exists>argv. files st' = child_writes w argv (timeout s) (files st)))"
  unfolding run_index_body_def Let_def
  by (intro ensures_bnd_ro ensures_if ensures_ret ensures_spawn_pipe
      read_only_subscript read_only_Path read_only_path_exists read_only_stat_size
      read_only_index_tail [simplified]) simp_all

text \<open>
  Claim C8. For the four operations that work in a temporary directory, if the
  directory name picked for the call was new when the call started, then after
  the call neither the directory nor any path inside it exists, whatever the
  arguments and whatever the outcome (validation error, launch failure, timeout,
  non-zero exit, success, or an exception caught by the handler). The index
  operation creates no temporary directory: the files after an index call are
  those before it, or those the child left.
\<close>

theorem tmpdir_removed_after_call:
  assumes tool: "name \<in> set tmp_tools"
    and fresh: "fresh_tmp w s st"
    and ins: "inside (tmp_name w (temp_dir s) (files st)) p"
  shows "files (snd (call_tool w s name args st)) p = None
       \<and> (files (snd (call_tool w s ''bwa_index'' args st)) = files st
          \<or> (\<exists>argv. files (snd (call_tool w s ''bwa_index'' args st))
                     = child_writes w argv (timeout s) (files st)))"
proof
  have "tmp_clean w s st (snd (call_tool w s name args st))"
    using tool try_except_clean [OF clean_mem [of w s args], of st]
      try_except_clean [OF clean_aln [of w s args], of st]
      try_except_clean [OF clean_samse [of w s args], of st]
      try_except_clean [OF clean_sampe [of w s args], of st]
    by (auto simp: tmp_tools_def call_tool_def handlers_def run_mem_def run_aln_def
        run_samse_def run_sampe_def)
  with fresh ins show "files (snd (call_tool w s name args st)) p = None"
    by (simp add: tmp_clean_def)
  show "files (snd (call_tool w s ''bwa_index'' args st)) = files st
        \<or> (\<exists>argv. files (snd (call_tool w s ''bwa_index'' args st))
                   = child_writes w argv (timeout s) (files st))"
    using index_fs [of w s args]
    by (simp add: call_tool_def handlers_def run_index_def snd_try_except ensures_def)
qed


theorem tmpdir_removed_after_call_witness:
  "files (snd (call_tool (plain_world (Exited 0 ''r1'' [])) default_settings ''bwa_mem''
       [''reference'' \<mapsto> VStr ''ref.fa'', ''reads1'' \<mapsto> VStr ''r1.fq'']
       (sys_with [(''ref.fa'', File ''ACGT''), (''r1.fq'', File ''@r1'')])))
     ''/tmp/tmpk3v9xq2a'' = None
   \<and> files (snd (call_tool (plain_world (TimedOut [])) default_settings ''bwa_samse''
       [''reference'' \<mapsto> VStr ''ref.fa'', ''sai_file'' \<mapsto> VStr ''r1.sai'',
        ''reads'' \<mapsto> VStr ''r1.fq'']
       (sys_with [(''ref.fa'', File ''ACGT''), (''r1.sai'', File []), (''r1.fq'', File ''@r1'')])))
     ''/tmp/tmpk3v9xq2a/alignment.sam'' = None"
  using
    tmpdir_removed_after_call [of "''bwa_mem''" "plain_world (Exited 0 ''r1'' [])"
      default_settings "sys_with [(''ref.fa'', File ''ACGT''), (''r1.fq'', File ''@r1'')]"
      "''/tmp/tmpk3v9xq2a''"
      "[''reference'' \<mapsto> VStr ''ref.fa'', ''reads1'' \<mapsto> VStr ''r1.fq'']"]
    tmpdir_removed_after_call [of "''bwa_samse''" "plain_world (TimedOut [])"
      default_settings
      "sys_with [(''ref.fa'', File ''ACGT''), (''r1.sai'', File []), (''r1.fq'', File ''@r1'')]"
      "''/tmp/tmpk3v9xq2a/alignment.sam''"
      "[''reference'' \<mapsto> VStr ''ref.fa'', ''sai_file'' \<mapsto> VStr ''r1.sai'',
        ''reads'' \<mapsto> VStr ''r1.fq'']"]
  by (simp add: tmp_tools_def fresh_tmp_def inside_def example_defs)

section \<open>The output file named by a success response\<close>

lemma names_outputI: "(\<And>t. r = Inr [TextContent t] \<Longrightarrow> \<exists>pre post. t = pre @ out @ post)
  \<Longrightarrow> names_output out r"
  by (simp add: names_output_def)

lemma names_output_simps [simp]:
  "names_output out (Inl e)"
  "names_output out (Inr [ErrorContent m])"
  "names_output out (Inr [TextContent (pre @ out @ post)])"
  by (auto simp: names_output_def)

lemma names_mem [simp]: "names_output out (Inr [TextContent (mem_summary args out sz n)])"
  unfolding mem_summary_def
  using names_output_simps(3)
    [of out "''BWA-MEM alignment completed!'' @ nl @ nl @ ''Output file: ''"]
  by simp

lemma names_aln [simp]: "names_output out (Inr [TextContent (aln_summary out sz)])"
  unfolding aln_summary_def
  using names_output_simps(3) [of out "''BWA aln completed!'' @ nl @ nl @ ''Output SAI file: ''"]
  by simp

lemma names_sam [simp]: "names_output out (Inr [TextContent (sam_summary title out sz)])"
  unfolding sam_summary_def
  using names_output_simps(3) [of out "title @ nl @ nl @ ''Output SAM file: ''"]
  by simp

lemmas names_rules =
  ensures_bnd_result [where P = "names_output out" for out]
  ensures_ret [where Q = "\<lambda>_ r _. names_output out r" for out]
  ensures_if

lemma names_mem_tmp:
  "ensures (run_mem_tmp w s args reference reads1 d)
     (\<lambda>_ r _. names_output (path_str w (d @ ''/'' @ output_name ''bwa_mem'')) r)"
  unfolding run_mem_tmp_def Let_def output_name_def
  by (intro names_rules) (simp_all add: split_def names_rules)

lemma names_aln_tmp:
  "ensures (run_aln_tmp w s args reference reads d)
     (\<lambda>_ r _. names_output (path_str w (d @ ''/'' @ output_name ''bwa_aln'')) r)"
  unfolding run_aln_tmp_def Let_def output_name_def
  by (intro names_rules) (simp_all add: split_def names_rules)

lemma names_samse_tmp:
  "ensures (run_samse_tmp w s reference sai_file reads d)
     (\<lambda>_ r _. names_output (path_str w (d @ ''/'' @ output_name ''bwa_samse'')) r)"
  unfolding run_samse_tmp_def Let_def output_name_def
  by (intro names_rules) (simp_all add: split_def names_rules)

lemma names_sampe_tmp:
  "ensures (run_sampe_tmp w s reference sai_file1 sai_file2 reads1 reads2 d)
     (\<lambda>_ r _. names_output (path_str w (d @ ''/'' @ output_name ''bwa_sampe'')) r)"
  unfolding run_sampe_tmp_def Let_def output_name_def
  by (intro names_rules) (simp_all add: split_def names_rules)


lemma success_gone_simps [simp]:
  "success_gone w s name st (Inl e) st'"
  "success_gone w s name st (Inr [ErrorContent m]) st'"
  by (simp_all add: success_gone_def)

lemma ensures_with_tmpdir_gone:
  assumes body: "\<And>d. ensures (body d)
                   (\<lambda>_ r _. names_output (path_str w (d @ ''/'' @ output_name name)) r)"
  shows "ensures (with_tmpdir w s body) (success_gone w s name)"
proof (rule ensuresI)
  fix st
  show "success_gone w s name st (fst (with_tmpdir w s body st)) (snd (with_tmpdir w s body st))"
  proof (cases "fault w (CMkdtemp (temp_dir s))")
    case (Some m)
    then show ?thesis by (simp add: with_tmpdir_fault)
  next
    case None
    let ?d = "tmp_name w (temp_dir s) (files st)"
    let ?st1 = "st\<lparr>files := (files st)(?d \<mapsto> Dir)\<rparr>"
    have fst_eq: "fst (with_tmpdir w s body st) = fst (body ?d ?st1)"
      using None by (simp add: with_tmpdir_def Let_def split: prod.splits)
    have "names_output (path_str w (?d @ ''/'' @ output_name name)) (fst (body ?d ?st1))"
      using body [of ?d] by (simp add: ensures_def)
    with fst_eq None show ?thesis
      by (auto simp: success_gone_def with_tmpdir_removes)
  qed
qed

lemmas gone_rules =
  ensures_bnd_ro [where Q = "success_gone w s name" for w s name]
  ensures_ret [where Q = "success_gone w s name" for w s name]
  ensures_if ensures_case_option
  read_only_subscript read_only_Path read_only_path_exists read_only_check_files

lemma gone_mem: "ensures (run_mem_body w s args) (success_gone w s ''bwa_mem'')"
  unfolding run_mem_body_def
  by (intro gone_rules ensures_with_tmpdir_gone names_mem_tmp) simp_all

lemma gone_aln: "ensures (run_aln_body w s args) (success_gone w s ''bwa_aln'')"
  unfolding run_aln_body_def
  by (intro gone_rules ensures_with_tmpdir_gone names_aln_tmp) simp_all

lemma gone_samse: "ensures (run_samse_body w s args) (success_gone w s ''bwa_samse'')"
  unfolding run_samse_body_def
  by (intro gone_rules ensures_with_tmpdir_gone names_samse_tmp) simp_all

lemma gone_sampe: "ensures (run_sampe_body w s args) (success_gone w s ''bwa_sampe'')"
  unfolding run_sampe_body_def
  by (intro gone_rules ensures_with_tmpdir_gone names_sampe_tmp) simp_all

lemma try_except_gone:
  assumes "ensures body (success_gone w s name)"
  shows "success_gone w s name st (fst (try_except body st)) (snd (try_except body st))"
proof -
  obtain r st1 where b: "body st = (r, st1)" by (cases "body st")
  from ensuresD [OF assms b] have g: "success_gone w s name st r st1" .
  show ?thesis
  proof (cases r)
    case (Inl e)
    with b show ?thesis by (cases e) (simp add: try_except_def)
  next
    case (Inr cs)
    with b g show ?thesis by (simp add: try_except_def)
  qed
qed

lemma inside_child: "inside d (d @ CHR ''/'' # x)"
  by (simp add: inside_def)

text \<open>
  Claim C9. When a mem, aln, samse or sampe call returns a success item, its text
  contains the path of the output file, that path lies inside the temporary
  directory of the call, and the file does not exist in the state the call
  returns. The directory name is taken to be in normal form, so that joining
  the file name to it gives the path unchanged.
\<close>

theorem success_output_removed:
  assumes tool: "name \<in> set tmp_tools"
    and ok: "call_tool w s name args st = (Inr [TextContent t], st')"
    and norm: "path_str w (tmp_name w (temp_dir s) (files st) @ ''/'' @ output_name name)
               = tmp_name w (temp_dir s) (files st) @ ''/'' @ output_name name"
  shows "(\<exists>pre post.
            t = pre @ (tmp_name w (temp_dir s) (files st) @ ''/'' @ output_name name) @ post)
       \<and> inside (tmp_name w (temp_dir s) (files st))
            (tmp_name w (temp_dir s) (files st) @ ''/'' @ output_name name)
       \<and> files st' (tmp_name w (temp_dir s) (files st) @ ''/'' @ output_name name) = None"
proof -
  have "success_gone w s name st (fst (call_tool w s name args st))
          (snd (call_tool w s name args st))"
    using tool try_except_gone [OF gone_mem [of w s args], of st]
      try_except_gone [OF gone_aln [of w s args], of st]
      try_except_gone [OF gone_samse [of w s args], of st]
      try_except_gone [OF gone_sampe [of w s args], of st]
    by (auto simp: tmp_tools_def call_tool_def handlers_def run_mem_def run_aln_def
        run_samse_def run_sampe_def)
  with ok norm show ?thesis
    by (auto simp: success_gone_def names_output_def inside_child)
qed

section \<open>Running a call on a concrete environment\<close>

lemmas eval_defs = call_tool_def handlers_def run_mem_def run_mem_body_def run_mem_tmp_def
  bnd_ops with_tmpdir_def try_except_def mem_reads2_def mem_cmd_def get_opt_def
  get_default_def Let_def redirect_def ret_def throw_def str_int_def str_nat.simps digit_def

lemma mem_success_example:
  "fst (call_tool (plain_world (Exited 0 ''r1'' [])) default_settings ''bwa_mem''
       [''reference'' \<mapsto> VStr ''ref.fa'', ''reads1'' \<mapsto> VStr ''r1.fq'']
       (sys_with [(''ref.fa'', File ''ACGT''), (''r1.fq'', File ''@r1'')]))
   = Inr [TextContent
       (''BWA-MEM alignment completed!'' @ nl @ nl @
        ''Output file: /tmp/tmpk3v9xq2a/alignment.sam'' @ nl @
        ''Output size: 2 bytes'' @ nl @
        ''Alignment records: 1'' @ nl @
        ''Threads used: 4'' @ nl @
        ''Paired-end: No'')]"
  by (simp add: eval_defs example_defs count_records_def mem_summary_def fmt_commas_def)


theorem success_output_removed_witness:
  "files (snd (call_tool (plain_world (Exited 0 ''r1'' [])) default_settings ''bwa_mem''
       [''reference'' \<mapsto> VStr ''ref.fa'', ''reads1'' \<mapsto> VStr ''r1.fq'']
       (sys_with [(''ref.fa'', File ''ACGT''), (''r1.fq'', File ''@r1'')])))
     ''/tmp/tmpk3v9xq2a/alignment.sam'' = None
   \<and> inside ''/tmp/tmpk3v9xq2a'' ''/tmp/tmpk3v9xq2a/alignment.sam''"
proof -
  let ?w = "plain_world (Exited 0 ''r1'' [])"
  let ?args = "[''reference'' \<mapsto> VStr ''ref.fa'', ''reads1'' \<mapsto> VStr ''r1.fq'']"
  let ?st = "sys_with [(''ref.fa'', File ''ACGT''), (''r1.fq'', File ''@r1'')]"
  let ?t = "''BWA-MEM alignment completed!'' @ nl @ nl @
        ''Output file: /tmp/tmpk3v9xq2a/alignment.sam'' @ nl @
        ''Output size: 2 bytes'' @ nl @
        ''Alignment records: 1'' @ nl @
        ''Threads used: 4'' @ nl @
        ''Paired-end: No''"
  have ok: "call_tool ?w default_settings ''bwa_mem'' ?args ?st
            = (Inr [TextContent ?t], snd (call_tool ?w default_settings ''bwa_mem'' ?args ?st))"
    using mem_success_example by (simp add: prod_eq_iff)
  have tool: "''bwa_mem'' \<in> set tmp_tools" by (simp add: tmp_tools_def)
  from success_output_removed [OF tool ok] show ?thesis
    by (simp add: example_defs output_name_def)
qed

section \<open>The record count of the mem operation\<close>

lemma ensures_with_tmpdir_named:
  assumes err: "\<And>d e. P d (Inl e)"
    and body: "\<And>d. ensures (body d) (\<lambda>_ r _. P d r)"
  shows "ensures (with_tmpdir w s body) (\<lambda>st r _. P (tmp_name w (temp_dir s) (files st)) r)"
proof (rule ensuresI)
  fix st
  show "P (tmp_name w (temp_dir s) (files st)) (fst (with_tmpdir w s body st))"
  proof (cases "fault w (CMkdtemp (temp_dir s))")
    case (Some m)
    with err show ?thesis by (simp add: with_tmpdir_fault)
  next
    case None
    let ?d = "tmp_name w (temp_dir s) (files st)"
    let ?st1 = "st\<lparr>files := (files st)(?d \<mapsto> Dir)\<rparr>"
    have "fst (with_tmpdir w s body st) = fst (body ?d ?st1)"
      using None by (simp add: with_tmpdir_def Let_def split: prod.splits)
    with body [of ?d] show ?thesis by (simp add: ensures_def)
  qed
qed

lemma count_records_diff:
  "count_records ls = length ls - length (filter startswith_at ls)"
  using sum_length_filter_compl [of startswith_at ls]
  by (simp add: count_records_def)

lemma mem_after_spawn:
  assumes child: "\<And>argv f. child w argv (timeout s) f = Exited rc ob eb"
  shows "ensures
     (bnd (spawn_wait w s cmd (Some out))
        (\<lambda>(returncode, stderr).
           if returncode \<noteq> 0
           then bnd (decode w stderr) (\<lambda>t. ret [ErrorContent (''BWA mem failed: '' @ t)])
           else bnd (stat_size w out) (\<lambda>output_size.
                bnd (read_lines w out) (\<lambda>lines.
                ret [TextContent (mem_summary args out output_size (count_records lines))]))))
     (\<lambda>_ r _. \<forall>t. r = Inr [TextContent t] \<longrightarrow>
        t = mem_summary args out (length ob) (count_records (split_lines [] ob)))"
  by (rule ensuresI)
    (simp add: bnd_spawn_wait bnd_decode bnd_stat_size bnd_read_lines child redirect_def
      ret_def split: option.splits)

lemma mem_tmp_count:
  assumes child: "\<And>argv f. child w argv (timeout s) f = Exited rc ob eb"
  shows "ensures (run_mem_tmp w s args reference reads1 d)
     (\<lambda>_ r _. \<forall>t. r = Inr [TextContent t] \<longrightarrow>
        t = mem_summary args (path_str w (d @ ''/alignment.sam'')) (length ob)
              (count_records (split_lines [] ob)))"
  unfolding run_mem_tmp_def Let_def
  by (intro ensures_bnd_result mem_after_spawn [OF child]) simp_all

lemma mem_body_count:
  assumes child: "\<And>argv f. child w argv (timeout s) f = Exited rc ob eb"
  shows "ensures (run_mem_body w s args)
     (\<lambda>st r _. \<forall>t. r = Inr [TextContent t] \<longrightarrow>
        t = mem_summary args
              (path_str w (tmp_name w (temp_dir s) (files st) @ ''/alignment.sam''))
              (length ob) (count_records (split_lines [] ob)))"
  unfolding run_mem_body_def
  by (intro ensures_bnd_ro ensures_if ensures_ret
      ensures_with_tmpdir_named
        [where P = "\<lambda>d r. \<forall>t. r = Inr [TextContent t] \<longrightarrow>
            t = mem_summary args (path_str w (d @ ''/alignment.sam'')) (length ob)
                  (count_records (split_lines [] ob))"]
      mem_tmp_count [OF child]
      read_only_subscript read_only_Path read_only_path_exists) simp_all

text \<open>
  Claim C7. When the binary exits having written the bytes \<open>ob\<close> to its standard
  output and the mem call returns a success item, the text of that item is the
  summary reporting the size \<open>length ob\<close> and the record count \<open>N - H\<close>, where
  \<open>N\<close> is the number of lines of \<open>ob\<close> and \<open>H\<close> the number of those lines that
  start with \<open>@\<close>. Subtraction on natural numbers gives zero when \<open>N = 0\<close> and
  when \<open>H = N\<close>.
\<close>

theorem mem_record_count:
  assumes ok: "call_tool w s ''bwa_mem'' args st = (Inr [TextContent t], st')"
    and child: "\<And>argv f. child w argv (timeout s) f = Exited rc ob eb"
  shows "t = mem_summary args
             (path_str w (tmp_name w (temp_dir s) (files st) @ ''/alignment.sam''))
             (length ob)
             (length (split_lines [] ob) - length (filter startswith_at (split_lines [] ob)))"
proof -
  obtain r st1 where b: "run_mem_body w s args st = (r, st1)"
    by (cases "run_mem_body w s args st")
  from ok b have "r = Inr [TextContent t]"
    by (cases r)
      (auto simp: call_tool_def handlers_def run_mem_def try_except_def split: exn.splits)
  with ensuresD [OF mem_body_count [OF child] b] show ?thesis
    by (simp add: count_records_diff)
qed


lemma mem_count_example:
  "fst (call_tool
       (plain_world (Exited 0 (''@HD'' @ nl @ ''read1'' @ nl @ ''read2'' @ nl) []))
       default_settings ''bwa_mem''
       [''reference'' \<mapsto> VStr ''ref.fa'', ''reads1'' \<mapsto> VStr ''r1.fq'']
       (sys_with [(''ref.fa'', File ''ACGT''), (''r1.fq'', File ''@r1'')]))
   = Inr [TextContent
       (''BWA-MEM alignment completed!'' @ nl @ nl @
        ''Output file: /tmp/tmpk3v9xq2a/alignment.sam'' @ nl @
        ''Output size: 16 bytes'' @ nl @
        ''Alignment records: 2'' @ nl @
        ''Threads used: 4'' @ nl @
        ''Paired-end: No'')]"
  by (simp add: eval_defs example_defs count_records_def mem_summary_def fmt_commas_def nl_def)

theorem mem_record_count_witness:
  "''BWA-MEM alignment completed!'' @ nl @ nl @
   ''Output file: /tmp/tmpk3v9xq2a/alignment.sam'' @ nl @
   ''Output size: 16 bytes'' @ nl @
   ''Alignment records: 2'' @ nl @
   ''Threads used: 4'' @ nl @
   ''Paired-end: No''
   = mem_summary [''reference'' \<mapsto> VStr ''ref.fa'', ''reads1'' \<mapsto> VStr ''r1.fq'']
       ''/tmp/tmpk3v9xq2a/alignment.sam'' 16 (3 - 1)"
proof -
  let ?ob = "''@HD'' @ nl @ ''read1'' @ nl @ ''read2'' @ nl"
  let ?w = "plain_world (Exited 0 ?ob [])"
  let ?args = "[''reference'' \<mapsto> VStr ''ref.fa'', ''reads1'' \<mapsto> VStr ''r1.fq'']"
  let ?st = "sys_with [(''ref.fa'', File ''ACGT''), (''r1.fq'', File ''@r1'')]"
  let ?t = "''BWA-MEM alignment completed!'' @ nl @ nl @
   ''Output file: /tmp/tmpk3v9xq2a/alignment.sam'' @ nl @
   ''Output size: 16 bytes'' @ nl @
   ''Alignment records: 2'' @ nl @
   ''Threads used: 4'' @ nl @
   ''Paired-end: No''"
  have ok: "call_tool ?w default_settings ''bwa_mem'' ?args ?st
            = (Inr [TextContent ?t], snd (call_tool ?w default_settings ''bwa_mem'' ?args ?st))"
    using mem_count_example by (simp add: prod_eq_iff)
  have child: "\<And>argv f. child ?w argv (timeout default_settings) f = Exited 0 ?ob []"
    by (simp add: example_defs)
  have lens: "length ?ob = 16" "length (split_lines [] ?ob) = 3"
    "length (filter startswith_at (split_lines [] ?ob)) = 1"
    by (simp_all add: nl_def)
  from mem_record_count [OF ok child] show ?thesis
    unfolding lens by (simp add: example_defs)
qed

section \<open>What a launched process leads to\<close>

lemma launched_then_same [simp]: "launched_then R st r st"
  by (simp add: launched_then_def)

lemma ensures_bnd_procs:
  assumes keep: "\<And>st. procs (snd (m st)) = procs st"
    and cont: "\<And>x. ensures (f x) (launched_then R)"
  shows "ensures (bnd m f) (launched_then R)"
proof (rule ensuresI)
  fix st
  obtain r st1 where m: "m st = (r, st1)" by (cases "m st")
  with keep [of st] have p1: "procs st1 = procs st" by simp
  show "launched_then R st (fst (bnd m f st)) (snd (bnd m f st))"
  proof (cases r)
    case (Inl e)
    with m p1 show ?thesis by (simp add: bnd_def launched_then_def)
  next
    case (Inr x)
    from cont [of x] have "launched_then R st1 (fst (f x st1)) (snd (f x st1))"
      by (simp add: ensures_def)
    with m p1 Inr show ?thesis by (simp add: bnd_def launched_then_def)
  qed
qed

lemma procs_read_only: "read_only m \<Longrightarrow> procs (snd (m st)) = procs st"
  by (simp add: read_only_def)

lemma procs_open_w: "procs (snd (open_w w p st)) = procs st"
  by (simp add: open_w_def split: option.splits node.splits)

lemma ensures_with_tmpdir_procs:
  assumes body: "\<And>d. ensures (body d) (launched_then R)"
  shows "ensures (with_tmpdir w s body) (launched_then R)"
proof (rule ensuresI)
  fix st
  show "launched_then R st (fst (with_tmpdir w s body st)) (snd (with_tmpdir w s body st))"
  proof (cases "fault w (CMkdtemp (temp_dir s))")
    case (Some m)
    then show ?thesis by (simp add: with_tmpdir_fault)
  next
    case None
    let ?d = "tmp_name w (temp_dir s) (files st)"
    let ?st1 = "st\<lparr>files := (files st)(?d \<mapsto> Dir)\<rparr>"
    from body [of ?d] have "launched_then R ?st1 (fst (body ?d ?st1)) (snd (body ?d ?st1))"
      by (simp add: ensures_def)
    with None show ?thesis
      by (cases "body ?d ?st1") (simp add: with_tmpdir_def Let_def launched_then_def)
  qed
qed

lemmas launched_rules =
  ensures_bnd_procs ensures_with_tmpdir_procs ensures_if ensures_case_option
  ensures_ret [where Q = "launched_then R" for R]
  procs_read_only [OF read_only_subscript] procs_read_only [OF read_only_Path]
  procs_read_only [OF read_only_path_exists] procs_read_only [OF read_only_stat_size]
  procs_read_only [OF read_only_check_files] procs_read_only [OF read_only_mem_reads2]
  procs_open_w

text \<open>The step that launches, for a result fixed by the child's behaviour.\<close>

lemma spawn_nonzero:
  assumes child: "\<And>argv f. child w argv (timeout s) f = Exited rc ob eb"
    and nz: "rc \<noteq> 0"
    and dec: "fault w (CDecode eb) = None"
  shows "ensures
     (bnd (spawn_wait w s cmd out)
        (\<lambda>(returncode, stderr).
           if returncode \<noteq> 0
           then bnd (decode w stderr) (\<lambda>t. ret [ErrorContent (pfx @ t)])
           else g))
     (launched_then (\<lambda>r _ _. r = Inr [ErrorContent (pfx @ eb)]))"
  by (rule ensuresI)
    (simp add: bnd_spawn_wait bnd_decode child nz dec ret_def launched_then_def
      split: option.splits)

lemma spawn_timeout:
  assumes child: "\<And>argv f. child w argv (timeout s) f = TimedOut partial"
  shows "ensures (bnd (spawn_wait w s cmd out) f)
     (launched_then (\<lambda>r before after.
        r = Inl (Exn []) \<and> (\<exists>argv. after = before @ [(argv, Running)])))"
  by (rule ensuresI)
    (simp add: bnd_spawn_wait child launched_then_def split: option.splits)

lemmas body_defs = run_index_body_def run_mem_body_def run_mem_tmp_def run_aln_body_def
  run_aln_tmp_def run_samse_body_def run_samse_tmp_def run_sampe_body_def run_sampe_tmp_def
  Let_def

lemma nonzero_bodies:
  assumes child: "\<And>argv f. child w argv (timeout s) f = Exited rc ob eb"
    and nz: "rc \<noteq> 0"
    and dec: "fault w (CDecode eb) = None"
  shows "ensures (run_index_body w s args)
           (launched_then (\<lambda>r _ _. r = Inr [ErrorContent (''BWA index failed: '' @ eb)]))"
    and "ensures (run_mem_body w s args)
           (launched_then (\<lambda>r _ _. r = Inr [ErrorContent (''BWA mem failed: '' @ eb)]))"
    and "ensures (run_aln_body w s args)
           (launched_then (\<lambda>r _ _. r = Inr [ErrorContent (''BWA aln failed: '' @ eb)]))"
    and "ensures (run_samse_body w s args)
           (launched_then (\<lambda>r _ _. r = Inr [ErrorContent (''BWA samse failed: '' @ eb)]))"
    and "ensures (run_sampe_body w s args)
           (launched_then (\<lambda>r _ _. r = Inr [ErrorContent (''BWA sampe failed: '' @ eb)]))"
  unfolding body_defs
  by (intro spawn_nonzero [OF child nz dec] launched_rules; simp)+

lemma timeout_bodies:
  assumes child: "\<And>argv f. child w argv (timeout s) f = TimedOut partial"
  shows "ensures (run_index_body w s args)
           (launched_then (\<lambda>r before after.
              r = Inl (Exn []) \<and> (\<exists>argv. after = before @ [(argv, Running)])))"
    and "ensures (run_mem_body w s args)
           (launched_then (\<lambda>r before after.
              r = Inl (Exn []) \<and> (\<exists>argv. after = before @ [(argv, Running)])))"
    and "ensures (run_aln_body w s args)
           (launched_then (\<lambda>r before after.
              r = Inl (Exn []) \<and> (\<exists>argv. after = before @ [(argv, Running)])))"
    and "ensures (run_samse_body w s args)
           (launched_then (\<lambda>r before after.
              r = Inl (Exn []) \<and> (\<exists>argv. after = before @ [(argv, Running)])))"
    and "ensures (run_sampe_body w s args)
           (launched_then (\<lambda>r before after.
              r = Inl (Exn []) \<and> (\<exists>argv. after = before @ [(argv, Running)])))"
  unfolding body_defs
  by (intro spawn_timeout [OF child] launched_rules; simp)+


lemma try_except_launched:
  assumes "ensures body (launched_then R)"
    and "procs (snd (try_except body st)) \<noteq> procs st"
  shows "R (fst (body st)) (procs st) (procs (snd (body st)))"
  using assms by (simp add: snd_try_except ensures_def launched_then_def)

lemma fst_try_except_Inr: "fst (body st) = Inr r \<Longrightarrow> fst (try_except body st) = Inr r"
  by (cases "body st") (simp add: try_except_def)

lemma fst_try_except_Inl:
  "fst (body st) = Inl (Exn m) \<Longrightarrow> fst (try_except body st) = Inr [ErrorContent (''Error: '' @ m)]"
  by (cases "body st") (simp add: try_except_def)

lemmas handler_defs = run_index_def run_mem_def run_aln_def run_samse_def run_sampe_def

lemma call_tool_cases:
  assumes "name \<in> set tool_names"
  obtains "name = ''bwa_index''" "call_tool w s name args = try_except (run_index_body w s args)"
  | "name = ''bwa_mem''" "call_tool w s name args = try_except (run_mem_body w s args)"
  | "name = ''bwa_aln''" "call_tool w s name args = try_except (run_aln_body w s args)"
  | "name = ''bwa_samse''" "call_tool w s name args = try_except (run_samse_body w s args)"
  | "name = ''bwa_sampe''" "call_tool w s name args = try_except (run_sampe_body w s args)"
proof -
  have eqs:
    "call_tool w s ''bwa_index'' args = try_except (run_index_body w s args)"
    "call_tool w s ''bwa_mem'' args = try_except (run_mem_body w s args)"
    "call_tool w s ''bwa_aln'' args = try_except (run_aln_body w s args)"
    "call_tool w s ''bwa_samse'' args = try_except (run_samse_body w s args)"
    "call_tool w s ''bwa_sampe'' args = try_except (run_sampe_body w s args)"
    by (rule ext, simp add: call_tool_def handlers_def handler_defs)+
  from assms consider "name = ''bwa_index''" | "name = ''bwa_mem''" | "name = ''bwa_aln''"
    | "name = ''bwa_samse''" | "name = ''bwa_sampe''"
    by (auto simp: tool_names_def)
  then show thesis
    using that eqs by cases simp_all
qed

text \<open>
  Claim C6, as the code has it. For each of the five operations, when the call
  launched the binary, the binary exited with a non-zero status and standard
  error \<open>eb\<close>, and \<open>eb\<close> decodes as UTF-8, the call returns the single error item
  \<open>BWA <operation> failed: \<close> followed by \<open>eb\<close>, unchanged.
\<close>

theorem nonzero_exit_reports_stderr:
  assumes tool: "name \<in> set tool_names"
    and child: "\<And>argv f. child w argv (timeout s) f = Exited rc ob eb"
    and nz: "rc \<noteq> 0"
    and dec: "fault w (CDecode eb) = None"
    and launched: "procs (snd (call_tool w s name args st)) \<noteq> procs st"
  shows "fst (call_tool w s name args st)
         = Inr [ErrorContent (''BWA '' @ drop 4 name @ '' failed: '' @ eb)]"
  using tool
proof (cases rule: call_tool_cases [where w = w and s = s and args = args])
  case 1
  with launched try_except_launched [OF nonzero_bodies(1) [OF child nz dec], of args st]
  show ?thesis by (simp add: fst_try_except_Inr)
next
  case 2
  with launched try_except_launched [OF nonzero_bodies(2) [OF child nz dec], of args st]
  show ?thesis by (simp add: fst_try_except_Inr)
next
  case 3
  with launched try_except_launched [OF nonzero_bodies(3) [OF child nz dec], of args st]
  show ?thesis by (simp add: fst_try_except_Inr)
next
  case 4
  with launched try_except_launched [OF nonzero_bodies(4) [OF child nz dec], of args st]
  show ?thesis by (simp add: fst_try_except_Inr)
next
  case 5
  with launched try_except_launched [OF nonzero_bodies(5) [OF child nz dec], of args st]
  show ?thesis by (simp add: fst_try_except_Inr)
qed

text \<open>
  Claim C2, as the code has it. For each of the five operations, when the call
  launched the binary and the wait timed out, the call returns the error item
  \<open>Error: \<close> followed by the empty message of the timeout exception, which is
  the form every other exception takes and is not the non-zero-exit form; the
  launched process is the last of the process list and is still running.
\<close>

theorem timeout_is_generic_error:
  assumes tool: "name \<in> set tool_names"
    and child: "\<And>argv f. child w argv (timeout s) f = TimedOut partial"
    and launched: "procs (snd (call_tool w s name args st)) \<noteq> procs st"
  shows "fst (call_tool w s name args st) = Inr [ErrorContent ''Error: '']
       \<and> (\<exists>argv. procs (snd (call_tool w s name args st)) = procs st @ [(argv, Running)])
       \<and> (\<forall>e. fst (call_tool w s name args st)
                \<noteq> Inr [ErrorContent (''BWA '' @ drop 4 name @ '' failed: '' @ e)])"
  using tool
proof (cases rule: call_tool_cases [where w = w and s = s and args = args])
  case 1
  with launched try_except_launched [OF timeout_bodies(1) [OF child], of args st]
  show ?thesis by (simp add: fst_try_except_Inl snd_try_except)
next
  case 2
  with launched try_except_launched [OF timeout_bodies(2) [OF child], of args st]
  show ?thesis by (simp add: fst_try_except_Inl snd_try_except)
next
  case 3
  with launched try_except_launched [OF timeout_bodies(3) [OF child], of args st]
  show ?thesis by (simp add: fst_try_except_Inl snd_try_except)
next
  case 4
  with launched try_except_launched [OF timeout_bodies(4) [OF child], of args st]
  show ?thesis by (simp add: fst_try_except_Inl snd_try_except)
next
  case 5
  with launched try_except_launched [OF timeout_bodies(5) [OF child], of args st]
  show ?thesis by (simp add: fst_try_except_Inl snd_try_except)
qed


lemmas eval_index = call_tool_def handlers_def run_index_def run_index_body_def bnd_ops
  try_except_def index_cmd_def choose_algorithm_def size_threshold_def get_default_def
  Let_def redirect_def ret_def throw_def

lemmas eval_aln = call_tool_def handlers_def run_aln_def run_aln_body_def run_aln_tmp_def
  bnd_ops with_tmpdir_def try_except_def aln_cmd_def get_default_def Let_def redirect_def
  ret_def throw_def str_int_def str_nat.simps digit_def

theorem nonzero_exit_reports_stderr_witness:
  "fst (call_tool (plain_world (Exited 1 [] ''[bwa_index] fail to open file''))
       default_settings ''bwa_index''
       [''reference_fasta'' \<mapsto> VStr ''ref.fa'']
       (sys_with [(''ref.fa'', File ''ACGT'')]))
   = Inr [ErrorContent ''BWA index failed: [bwa_index] fail to open file'']"
proof -
  let ?w = "plain_world (Exited 1 [] ''[bwa_index] fail to open file'')"
  let ?args = "[''reference_fasta'' \<mapsto> VStr ''ref.fa'']"
  let ?st = "sys_with [(''ref.fa'', File ''ACGT'')]"
  have tool: "''bwa_index'' \<in> set tool_names" by (simp add: tool_names_def)
  have child: "\<And>argv f. child ?w argv (timeout default_settings) f
                 = Exited 1 [] ''[bwa_index] fail to open file''"
    by (simp add: example_defs)
  have dec: "fault ?w (CDecode ''[bwa_index] fail to open file'') = None"
    by (simp add: example_defs)
  have launched: "procs (snd (call_tool ?w default_settings ''bwa_index'' ?args ?st)) \<noteq> procs ?st"
    by (simp add: eval_index example_defs)
  from nonzero_exit_reports_stderr [OF tool child _ dec launched] show ?thesis by simp
qed

text \<open>
  The claim as stated covers every standard error. When the child exits with
  status 1 and the single byte \<open>0xff\<close> on standard error, decoding raises and
  the call returns the exception's message; the byte is not in the response.
\<close>

theorem undecodable_stderr_counterexample:
  "fst (call_tool (strict_world (Exited 1 [] [CHR 0xFF]) [CHR 0xFF] invalid_start_msg)
       default_settings ''bwa_index''
       [''reference_fasta'' \<mapsto> VStr ''ref.fa'']
       (sys_with [(''ref.fa'', File ''ACGT'')]))
   = Inr [ErrorContent (''Error: '' @ invalid_start_msg)]
   \<and> procs (snd (call_tool (strict_world (Exited 1 [] [CHR 0xFF]) [CHR 0xFF] invalid_start_msg)
       default_settings ''bwa_index''
       [''reference_fasta'' \<mapsto> VStr ''ref.fa'']
       (sys_with [(''ref.fa'', File ''ACGT'')])))
     = [([''bwa'', ''index'', ''-a'', ''is'', ''ref.fa''], Finished 1)]
   \<and> CHR 0xFF \<notin> set (''Error: '' @ invalid_start_msg)"
  by (simp add: eval_index example_defs invalid_start_msg_def)

theorem timeout_is_generic_error_witness:
  "fst (call_tool (plain_world (TimedOut [])) default_settings ''bwa_aln''
       [''reference'' \<mapsto> VStr ''ref.fa'', ''reads'' \<mapsto> VStr ''r1.fq'']
       (sys_with [(''ref.fa'', File ''ACGT''), (''r1.fq'', File ''@r1'')]))
   = Inr [ErrorContent ''Error: '']"
proof -
  let ?w = "plain_world (TimedOut [])"
  let ?args = "[''reference'' \<mapsto> VStr ''ref.fa'', ''reads'' \<mapsto> VStr ''r1.fq'']"
  let ?st = "sys_with [(''ref.fa'', File ''ACGT''), (''r1.fq'', File ''@r1'')]"
  have tool: "''bwa_aln'' \<in> set tool_names" by (simp add: tool_names_def)
  have child: "\<And>argv f. child ?w argv (timeout default_settings) f = TimedOut []"
    by (simp add: example_defs)
  have launched: "procs (snd (call_tool ?w default_settings ''bwa_aln'' ?args ?st)) \<noteq> procs ?st"
    by (simp add: eval_aln example_defs)
  from timeout_is_generic_error [OF tool child launched] show ?thesis by simp
qed

text \<open>
  The claim as stated has the child terminated and the timeout reported in a
  form of its own. After a mem call whose wait timed out the child is still
  running, and the response is the one a launch failure with an empty message
  gives.
\<close>

theorem timeout_leaves_child_counterexample:
  "fst (call_tool (plain_world (TimedOut [])) default_settings ''bwa_mem''
       [''reference'' \<mapsto> VStr ''ref.fa'', ''reads1'' \<mapsto> VStr ''r1.fq'']
       (sys_with [(''ref.fa'', File ''ACGT''), (''r1.fq'', File ''@r1'')]))
   = Inr [ErrorContent ''Error: '']
   \<and> procs (snd (call_tool (plain_world (TimedOut [])) default_settings ''bwa_mem''
       [''reference'' \<mapsto> VStr ''ref.fa'', ''reads1'' \<mapsto> VStr ''r1.fq'']
       (sys_with [(''ref.fa'', File ''ACGT''), (''r1.fq'', File ''@r1'')])))
     = [([''bwa'', ''mem'', ''-t'', ''4'', ''-k'', ''19'', ''-w'', ''100'', ''ref.fa'', ''r1.fq''],
         Running)]
   \<and> fst (call_tool (plain_world (SpawnError [])) default_settings ''bwa_mem''
       [''reference'' \<mapsto> VStr ''ref.fa'', ''reads1'' \<mapsto> VStr ''r1.fq'']
       (sys_with [(''ref.fa'', File ''ACGT''), (''r1.fq'', File ''@r1'')]))
   = Inr [ErrorContent ''Error: '']"
  by (simp add: eval_defs example_defs)

section \<open>Validation of the required paths\<close>

lemma check_files_step:
  "bnd (check_files w (p # ps)) f st
   = (case fault w (CExists p) of
        Some m \<Rightarrow> (Inl (Exn m), st)
      | None \<Rightarrow> if files st p = None then f (Some p) st else bnd (check_files w ps) f st)"
  by (simp add: bnd_def path_exists_def split: option.splits)

lemma check_files_done: "bnd (check_files w []) f st = f None st"
  by (simp add: bnd_def)

lemmas precheck_simps = run_index_def run_index_body_def run_mem_def run_mem_body_def
  run_aln_def run_aln_body_def run_samse_def run_samse_body_def run_sampe_def
  run_sampe_body_def bnd_subscript bnd_Path bnd_path_exists check_files_step check_files_done
  try_except_def throw_def ret_def

text \<open>
  Claim C4, as the code has it. Take one of the five operations and a required
  path parameter \<open>k\<close> of it such that the required parameters read before \<open>k\<close>
  are all present as strings. If \<open>k\<close> is absent, the call returns the error
  \<open>Error: \<close> followed by the quoted name \<open>k\<close>. If all required parameters are
  present as strings, the paths before \<open>k\<close> exist and the path \<open>p\<close> given for
  \<open>k\<close> does not, the call returns an error whose text ends with \<open>p\<close>. In both
  cases the state is unchanged, so no process was launched.
\<close>

theorem missing_required_path_rejected:
  assumes tool: "name \<in> set tool_names"
    and split: "required_paths name = before @ k # rest"
    and present: "\<forall>k'\<in>set before. \<exists>q. args k' = Some (VStr q)"
  shows "(args k = None \<longrightarrow>
            call_tool w s name args st = (Inr [ErrorContent (''Error: '' @ key_repr k)], st))
       \<and> (\<forall>p. (\<forall>k'\<in>set (required_paths name).
                   \<exists>q. args k' = Some (VStr q) \<and> fault w (CExists (path_str w q)) = None)
              \<and> (\<forall>k'\<in>set before. \<forall>q. args k' = Some (VStr q) \<longrightarrow> files st (path_str w q) \<noteq> None)
              \<and> args k = Some (VStr p) \<and> files st (path_str w p) = None
              \<longrightarrow> (\<exists>pre. call_tool w s name args st
                         = (Inr [ErrorContent (pre @ path_str w p)], st)))"
  using tool
proof (cases rule: call_tool_cases [where w = w and s = s and args = args])
  case 1
  with split have "before = []" "k = ''reference_fasta''"
    by (auto simp: required_paths_def Cons_eq_append_conv)
  with 1 show ?thesis
    by (auto simp: required_paths_def precheck_simps)
next
  case 2
  with split consider "before = []" "k = ''reference''"
    | "before = [''reference'']" "k = ''reads1''"
    by (auto simp: required_paths_def Cons_eq_append_conv)
  then show ?thesis
    using 2 present by cases (auto simp: required_paths_def precheck_simps)
next
  case 3
  with split consider "before = []" "k = ''reference''"
    | "before = [''reference'']" "k = ''reads''"
    by (auto simp: required_paths_def Cons_eq_append_conv)
  then show ?thesis
    using 3 present by cases (auto simp: required_paths_def precheck_simps)
next
  case 4
  with split consider "before = []" "k = ''reference''"
    | "before = [''reference'']" "k = ''sai_file''"
    | "before = [''reference'', ''sai_file'']" "k = ''reads''"
    by (auto simp: required_paths_def Cons_eq_append_conv)
  then show ?thesis
    using 4 present by cases (auto simp: required_paths_def precheck_simps)
next
  case 5
  with split consider "before = []" "k = ''reference''"
    | "before = [''reference'']" "k = ''sai_file1''"
    | "before = [''reference'', ''sai_file1'']" "k = ''sai_file2''"
    | "before = [''reference'', ''sai_file1'', ''sai_file2'']" "k = ''reads1''"
    | "before = [''reference'', ''sai_file1'', ''sai_file2'', ''reads1'']" "k = ''reads2''"
    by (auto simp: required_paths_def Cons_eq_append_conv)
  then show ?thesis
    using 5 present by cases (auto simp: required_paths_def precheck_simps)
qed


lemmas eval_samse = call_tool_def handlers_def precheck_simps

lemma bnd_assoc: "bnd (bnd m f) g = bnd m (\<lambda>x. bnd (f x) g)"
  by (rule ext) (simp add: bnd_def split: prod.splits sum.splits)

theorem missing_required_path_rejected_witness:
  "call_tool (plain_world (Exited 0 [] [])) default_settings ''bwa_mem''
       [''reference'' \<mapsto> VStr ''ref.fa'']
       (sys_with [(''ref.fa'', File ''ACGT'')])
   = (Inr [ErrorContent (''Error: '' @ key_repr ''reads1'')], sys_with [(''ref.fa'', File ''ACGT'')])
   \<and> call_tool (plain_world (Exited 0 [] [])) default_settings ''bwa_samse''
       [''reference'' \<mapsto> VStr ''ref.fa'', ''sai_file'' \<mapsto> VStr ''r1.sai'',
        ''reads'' \<mapsto> VStr ''r1.fq'']
       (sys_with [(''ref.fa'', File ''ACGT''), (''r1.fq'', File ''@r1'')])
   = (Inr [ErrorContent ''File not found: r1.sai''],
      sys_with [(''ref.fa'', File ''ACGT''), (''r1.fq'', File ''@r1'')])"
proof -
  let ?w = "plain_world (Exited 0 [] [])"
  let ?st1 = "sys_with [(''ref.fa'', File ''ACGT'')]"
  let ?args1 = "[''reference'' \<mapsto> VStr ''ref.fa'']"
  let ?st2 = "sys_with [(''ref.fa'', File ''ACGT''), (''r1.fq'', File ''@r1'')]"
  let ?args2 = "[''reference'' \<mapsto> VStr ''ref.fa'', ''sai_file'' \<mapsto> VStr ''r1.sai'',
        ''reads'' \<mapsto> VStr ''r1.fq'']"
  have tool1: "''bwa_mem'' \<in> set tool_names" and tool2: "''bwa_samse'' \<in> set tool_names"
    by (simp_all add: tool_names_def)
  have split1: "required_paths ''bwa_mem'' = [''reference''] @ ''reads1'' # []"
    and split2: "required_paths ''bwa_samse'' = [''reference''] @ ''sai_file'' # [''reads'']"
    by (simp_all add: required_paths_def)
  have present1: "\<forall>k'\<in>set [''reference'']. \<exists>q. ?args1 k' = Some (VStr q)"
    and present2: "\<forall>k'\<in>set [''reference'']. \<exists>q. ?args2 k' = Some (VStr q)"
    by simp_all
  have none1: "?args1 ''reads1'' = None" by simp
  have a: "call_tool ?w default_settings ''bwa_mem'' ?args1 ?st1
           = (Inr [ErrorContent (''Error: '' @ key_repr ''reads1'')], ?st1)"
    by (rule missing_required_path_rejected
        [OF tool1 split1 present1, THEN conjunct1, THEN mp, OF none1])
  have hyps: "(\<forall>k'\<in>set (required_paths ''bwa_samse'').
                 \<exists>q. ?args2 k' = Some (VStr q) \<and> fault ?w (CExists (path_str ?w q)) = None)
              \<and> (\<forall>k'\<in>set [''reference''].
                    \<forall>q. ?args2 k' = Some (VStr q) \<longrightarrow> files ?st2 (path_str ?w q) \<noteq> None)
              \<and> ?args2 ''sai_file'' = Some (VStr ''r1.sai'')
              \<and> files ?st2 (path_str ?w ''r1.sai'') = None"
    by (simp add: required_paths_def example_defs)
  have "\<exists>pre. call_tool ?w default_settings ''bwa_samse'' ?args2 ?st2
           = (Inr [ErrorContent (pre @ path_str ?w ''r1.sai'')], ?st2)"
    by (rule missing_required_path_rejected
        [OF tool2 split2 present2, THEN conjunct2, THEN spec, THEN mp, OF hyps])
  then have b: "call_tool ?w default_settings ''bwa_samse'' ?args2 ?st2
           = (Inr [ErrorContent ''File not found: r1.sai''], ?st2)"
    by (simp add: eval_samse example_defs)
  from a b show ?thesis by simp
qed

text \<open>
  The claim as stated covers every path-valued parameter. The second reads path
  of mem is one, and a call naming a file that does not exist there launches
  the binary and succeeds.
\<close>

theorem optional_reads2_unchecked_counterexample:
  "call_tool (plain_world (Exited 0 [] [])) default_settings ''bwa_mem''
       [''reference'' \<mapsto> VStr ''ref.fa'', ''reads1'' \<mapsto> VStr ''r1.fq'',
        ''reads2'' \<mapsto> VStr ''absent_R2.fq'']
       (sys_with [(''ref.fa'', File ''ACGT''), (''r1.fq'', File ''@r1'')])
   = (Inr [TextContent (mem_summary
         [''reference'' \<mapsto> VStr ''ref.fa'', ''reads1'' \<mapsto> VStr ''r1.fq'',
          ''reads2'' \<mapsto> VStr ''absent_R2.fq'']
         ''/tmp/tmpk3v9xq2a/alignment.sam'' 0 0)],
      \<lparr>files = map_of [(''ref.fa'', File ''ACGT''), (''r1.fq'', File ''@r1'')],
       procs = [([''bwa'', ''mem'', ''-t'', ''4'', ''-k'', ''19'', ''-w'', ''100'',
                  ''ref.fa'', ''r1.fq''], Finished 0)]\<rparr>)"
  apply (simp add: eval_defs bnd_assoc example_defs count_records_def)
  apply (rule ext)
  apply (simp add: rmtree_def inside_def)
  done


section \<open>The second reads file of the mem operation\<close>

text \<open>A second reads path that does not exist adds nothing to the argument
  vector, as when the parameter is absent.\<close>

lemma mem_reads2_ignored:
  assumes "fault w (CExists (path_str w p)) = None" and "files st (path_str w p) = None"
  shows "mem_reads2 w (args(''reads2'' \<mapsto> VStr p)) st = (Inr [], st)"
    and "mem_reads2 w (args(''reads2'' := None)) st = (Inr [], st)"
  using assms
  by (simp_all add: mem_reads2_def get_opt_def get_default_def bnd_Path bnd_path_exists ret_def)

text \<open>
  Claim C1 at a concrete call. With \<open>reads2\<close> naming a file that does not exist,
  the binary is started with the same arguments as without \<open>reads2\<close>, but the
  summary ends with \<open>Paired-end: Yes\<close> where the call without \<open>reads2\<close> ends
  with \<open>Paired-end: No\<close>.
\<close>

theorem mem_missing_reads2_reports_paired:
  "fst (call_tool (plain_world (Exited 0 [] [])) default_settings ''bwa_mem''
       [''reference'' \<mapsto> VStr ''ref.fa'', ''reads1'' \<mapsto> VStr ''r1.fq'',
        ''reads2'' \<mapsto> VStr ''missing.fq'']
       (sys_with [(''ref.fa'', File ''ACGT''), (''r1.fq'', File ''@r1'')]))
   = Inr [TextContent
       (''BWA-MEM alignment completed!'' @ nl @ nl @
        ''Output file: /tmp/tmpk3v9xq2a/alignment.sam'' @ nl @
        ''Output size: 0 bytes'' @ nl @
        ''Alignment records: 0'' @ nl @
        ''Threads used: 4'' @ nl @
        ''Paired-end: Yes'')]
   \<and> fst (call_tool (plain_world (Exited 0 [] [])) default_settings ''bwa_mem''
       [''reference'' \<mapsto> VStr ''ref.fa'', ''reads1'' \<mapsto> VStr ''r1.fq'']
       (sys_with [(''ref.fa'', File ''ACGT''), (''r1.fq'', File ''@r1'')]))
   = Inr [TextContent
       (''BWA-MEM alignment completed!'' @ nl @ nl @
        ''Output file: /tmp/tmpk3v9xq2a/alignment.sam'' @ nl @
        ''Output size: 0 bytes'' @ nl @
        ''Alignment records: 0'' @ nl @
        ''Threads used: 4'' @ nl @
        ''Paired-end: No'')]
   \<and> procs (snd (call_tool (plain_world (Exited 0 [] [])) default_settings ''bwa_mem''
       [''reference'' \<mapsto> VStr ''ref.fa'', ''reads1'' \<mapsto> VStr ''r1.fq'',
        ''reads2'' \<mapsto> VStr ''missing.fq'']
       (sys_with [(''ref.fa'', File ''ACGT''), (''r1.fq'', File ''@r1'')])))
     = [([''bwa'', ''mem'', ''-t'', ''4'', ''-k'', ''19'', ''-w'', ''100'', ''ref.fa'', ''r1.fq''],
         Finished 0)]
   \<and> procs (snd (call_tool (plain_world (Exited 0 [] [])) default_settings ''bwa_mem''
       [''reference'' \<mapsto> VStr ''ref.fa'', ''reads1'' \<mapsto> VStr ''r1.fq'']
       (sys_with [(''ref.fa'', File ''ACGT''), (''r1.fq'', File ''@r1'')])))
     = [([''bwa'', ''mem'', ''-t'', ''4'', ''-k'', ''19'', ''-w'', ''100'', ''ref.fa'', ''r1.fq''],
         Finished 0)]"
  by (simp add: eval_defs bnd_assoc example_defs count_records_def mem_summary_def
      fmt_commas_def)

end
